theory Spec2Isabelle
  imports Complex_Main "HOL-Library.Word" "HOL-Library.Multiset"
begin

unbundle bit_operations_syntax

section \<open>Common types\<close>

text \<open>
  Python \<open>bytes\<close> and \<open>bytearray\<close> values are lists of 8-bit words; Python's unbounded
  integers are \<open>int\<close>, or \<open>nat\<close> where the source keeps them non-negative by a
  \<open>% 256\<close> or as an index. Exceptions are values of \<open>py_error\<close>.
\<close>

type_synonym byte = "8 word"
type_synonym bytes = "byte list"

datatype py_error =
    ZeroDivisionError
  | IndexError
  | ValueError
  | StructError
  | TypeError
  | UnicodeEncodeError
  | BanDetectedException
  | ConnectionError

section \<open>ArcFour.py: the asymmetric stream cipher\<close>

text \<open>
  The fields \<open>_s\<close>, \<open>_i\<close>, \<open>_j\<close> of class \<open>ArcFour\<close>. \<open>_s\<close> is a Python list of ints.
\<close>

record ArcFour =
  af_s :: "nat list"
  af_i :: nat
  af_j :: nat

text \<open>
  \<open>s[a], s[b] = s[b], s[a]\<close>: both right-hand sides are read first, then \<open>s[a]\<close> is
  stored, then \<open>s[b]\<close>.
\<close>

definition swap :: "nat list \<Rightarrow> nat \<Rightarrow> nat \<Rightarrow> nat list" where
  "swap s a b = (s[a := s ! b])[b := s ! a]"

text \<open>One iteration of the key-scheduling loop of \<open>__init__\<close>, on the pair \<open>(_s, j)\<close>.\<close>

definition ksa_step :: "bytes \<Rightarrow> nat \<Rightarrow> nat list \<times> nat \<Rightarrow> nat list \<times> nat" where
  "ksa_step key i sj =
     (let s = fst sj;
          j = (snd sj + s ! i + unat (key ! (i mod length key))) mod 256
      in (swap s i j, j))"

definition ksa :: "bytes \<Rightarrow> nat list \<times> nat" where
  "ksa key = fold (ksa_step key) [0..<256] ([0..<256], 0)"

text \<open>
  \<open>ArcFour.__init__\<close>. With an empty key the first iteration evaluates
  \<open>i % len(key)\<close> and raises \<open>ZeroDivisionError\<close>.
\<close>

definition ArcFour_init :: "bytes \<Rightarrow> py_error + ArcFour" where
  "ArcFour_init key =
     (if key = [] then Inl ZeroDivisionError
      else Inr \<lparr>af_s = fst (ksa key), af_i = 0, af_j = 0\<rparr>)"

text \<open>
  The state advance of \<open>_apply_cipher\<close> for one byte, and the keystream byte it yields:
  a single lookup \<open>s[index1]\<close> when encrypting, \<open>s[s[index1]]\<close> when decrypting.
\<close>

definition advance :: "ArcFour \<Rightarrow> ArcFour" where
  "advance c =
     (let i = (af_i c + 1) mod 256;
          j = (af_j c + af_s c ! i) mod 256
      in \<lparr>af_s = swap (af_s c) i j, af_i = i, af_j = j\<rparr>)"

definition keystream_byte :: "ArcFour \<Rightarrow> bool \<Rightarrow> nat" where
  "keystream_byte c is_decrypt =
     (let s = af_s c;
          index1 = (s ! af_i c + s ! af_j c) mod 256
      in if is_decrypt then (let index2 = s ! index1 in s ! index2)
         else s ! index1)"

text \<open>
  \<open>_apply_cipher\<close>: the loop over the data. The object is mutated, so the new cipher
  state is returned with the output bytes.
\<close>

fun apply_cipher :: "ArcFour \<Rightarrow> bytes \<Rightarrow> bool \<Rightarrow> ArcFour \<times> bytes" where
  "apply_cipher c [] is_decrypt = (c, [])"
| "apply_cipher c (b # bs) is_decrypt =
     (let c1 = advance c;
          out = b XOR word_of_nat (keystream_byte c1 is_decrypt);
          r = apply_cipher c1 bs is_decrypt
      in (fst r, out # snd r))"

definition encrypt :: "ArcFour \<Rightarrow> bytes \<Rightarrow> ArcFour \<times> bytes" where
  "encrypt c data = apply_cipher c data False"

definition decrypt :: "ArcFour \<Rightarrow> bytes \<Rightarrow> ArcFour \<times> bytes" where
  "decrypt c data = apply_cipher c data True"

text \<open>
  The round trip of the cipher scenario: one instance encrypts, a second instance built
  from the same key decrypts the ciphertext.
\<close>

definition mirror_roundtrip :: "bytes \<Rightarrow> bytes \<Rightarrow> py_error + bytes" where
  "mirror_roundtrip key plaintext =
     (case ArcFour_init key of
        Inl e \<Rightarrow> Inl e
      | Inr enc \<Rightarrow>
          (case ArcFour_init key of
             Inl e \<Rightarrow> Inl e
           | Inr dec \<Rightarrow> Inr (snd (decrypt dec (snd (encrypt enc plaintext))))))"

text \<open>The same with both instances running the same direction of \<open>_apply_cipher\<close>.\<close>

definition same_direction_roundtrip :: "bool \<Rightarrow> bytes \<Rightarrow> bytes \<Rightarrow> py_error + bytes" where
  "same_direction_roundtrip is_decrypt key plaintext =
     (case ArcFour_init key of
        Inl e \<Rightarrow> Inl e
      | Inr a \<Rightarrow>
          (case ArcFour_init key of
             Inl e \<Rightarrow> Inl e
           | Inr b \<Rightarrow>
               Inr (snd (apply_cipher b (snd (apply_cipher a plaintext is_decrypt)) is_decrypt))))"

text \<open>The value of \<open>_s\<close> after the key schedule for the key \<open>01 02 03 04 05\<close>.\<close>

definition ks_12345 :: "nat list" where
  "ks_12345 =
     [1, 3, 8, 201, 21, 27, 35, 67, 242, 145, 207, 89, 92, 109, 31, 144, 7, 182, 55, 241, 224, 255,
     236, 83, 39, 153, 220, 140, 163, 206, 237, 128, 96, 46, 99, 26, 170, 210, 222, 105, 235, 0, 168,
     68, 16, 214, 94, 5, 120, 203, 254, 147, 11, 135, 194, 250, 29, 112, 174, 177, 185, 219, 52, 119,
     102, 60, 111, 87, 253, 41, 142, 213, 49, 138, 54, 44, 249, 100, 98, 240, 78, 116, 91, 23, 97,
     198, 233, 181, 159, 175, 76, 6, 61, 137, 124, 202, 79, 57, 50, 143, 84, 149, 86, 4, 148, 40,
     169, 34, 154, 238, 141, 199, 171, 179, 118, 103, 53, 158, 160, 37, 184, 2, 176, 221, 164, 122,
     173, 18, 196, 188, 14, 192, 115, 108, 63, 81, 114, 187, 117, 217, 223, 36, 167, 125, 59, 65,
     157, 101, 93, 151, 38, 43, 126, 130, 30, 75, 77, 211, 13, 180, 195, 104, 51, 85, 64, 127, 191,
     208, 74, 123, 139, 161, 247, 33, 80, 56, 165, 230, 225, 183, 69, 48, 248, 234, 152, 113, 156,
     218, 155, 252, 229, 239, 227, 17, 82, 231, 205, 129, 146, 134, 28, 12, 190, 66, 178, 232, 200,
     245, 110, 107, 15, 172, 243, 131, 162, 121, 70, 244, 20, 106, 132, 71, 25, 136, 212, 246, 47,
     150, 45, 95, 73, 32, 62, 166, 215, 58, 24, 19, 189, 133, 72, 228, 42, 10, 216, 90, 209, 22, 251,
     226, 204, 197, 193, 9, 186, 88]"

section \<open>habbo_packet.py: the packet codec\<close>

subsection \<open>Strings and \<open>struct\<close> formats\<close>

text \<open>
  A Python \<open>str\<close> is a list of Unicode code points. \<open>ascii\<close> turns an Isabelle string
  literal into such a list.
\<close>

type_synonym str = "nat list"

definition ascii :: "string \<Rightarrow> str" where
  "ascii s = map of_char s"

text \<open>
  \<open>s.encode('utf-8')\<close>. A surrogate code point raises \<open>UnicodeEncodeError\<close>; a Python
  \<open>str\<close> holds no code point above \<open>0x10FFFF\<close>, the last branch is for totality.
\<close>

definition utf8_encode_char :: "nat \<Rightarrow> py_error + bytes" where
  "utf8_encode_char c =
     (if c < 0x80 then Inr [word_of_nat c]
      else if c < 0x800 then Inr [word_of_nat (0xC0 + c div 64), word_of_nat (0x80 + c mod 64)]
      else if c < 0x10000 then
        (if 0xD800 \<le> c \<and> c < 0xE000 then Inl UnicodeEncodeError
         else Inr [word_of_nat (0xE0 + c div 4096), word_of_nat (0x80 + (c div 64) mod 64),
                   word_of_nat (0x80 + c mod 64)])
      else if c < 0x110000 then
        Inr [word_of_nat (0xF0 + c div 262144), word_of_nat (0x80 + (c div 4096) mod 64),
             word_of_nat (0x80 + (c div 64) mod 64), word_of_nat (0x80 + c mod 64)]
      else Inl UnicodeEncodeError)"

fun utf8_encode :: "str \<Rightarrow> py_error + bytes" where
  "utf8_encode [] = Inr []"
| "utf8_encode (c # cs) =
     (case utf8_encode_char c of
        Inl e \<Rightarrow> Inl e
      | Inr bs \<Rightarrow> (case utf8_encode cs of Inl e \<Rightarrow> Inl e | Inr rest \<Rightarrow> Inr (bs @ rest)))"

text \<open>
  \<open>raw.decode('utf-8')\<close> with the fallback \<open>raw.decode('utf-8', errors='replace')\<close> of
  \<open>Buffer.read_string\<close>: on valid input both give the same text, so the pair is the
  replacing decoder. CPython replaces by \<open>U+FFFD\<close> an invalid start byte (one byte
  consumed), a lead byte with its valid continuation bytes when the next byte does not
  continue the sequence (the valid part consumed), and a sequence cut off by the end of
  the data (all of the rest consumed).
\<close>

definition is_cont :: "byte \<Rightarrow> bool" where
  "is_cont b = (0x80 \<le> unat b \<and> unat b < 0xC0)"

definition bad_second :: "nat \<Rightarrow> byte \<Rightarrow> bool" where
  "bad_second c b1 =
     (\<not> is_cont b1 \<or> (c = 0xE0 \<and> unat b1 < 0xA0) \<or> (c = 0xED \<and> 0xA0 \<le> unat b1)
      \<or> (c = 0xF0 \<and> unat b1 < 0x90) \<or> (c = 0xF4 \<and> 0x90 \<le> unat b1))"

definition cont_bits :: "byte \<Rightarrow> nat" where
  "cont_bits b = unat b mod 64"

fun utf8_decode :: "bytes \<Rightarrow> str" where
  "utf8_decode [] = []"
| "utf8_decode (b0 # rest) =
     (let c = unat b0 in
      if c < 0x80 then c # utf8_decode rest
      else if c < 0xC2 then 0xFFFD # utf8_decode rest
      else if c < 0xE0 then
        (case rest of
           [] \<Rightarrow> [0xFFFD]
         | b1 # r1 \<Rightarrow>
             if \<not> is_cont b1 then 0xFFFD # utf8_decode rest
             else ((c - 0xC0) * 64 + cont_bits b1) # utf8_decode r1)
      else if c < 0xF0 then
        (case rest of
           [] \<Rightarrow> [0xFFFD]
         | [b1] \<Rightarrow> if bad_second c b1 then 0xFFFD # utf8_decode rest else [0xFFFD]
         | b1 # b2 # r2 \<Rightarrow>
             if bad_second c b1 then 0xFFFD # utf8_decode rest
             else if \<not> is_cont b2 then 0xFFFD # utf8_decode (b2 # r2)
             else ((c - 0xE0) * 4096 + cont_bits b1 * 64 + cont_bits b2) # utf8_decode r2)
      else if c < 0xF5 then
        (case rest of
           [] \<Rightarrow> [0xFFFD]
         | [b1] \<Rightarrow> if bad_second c b1 then 0xFFFD # utf8_decode rest else [0xFFFD]
         | [b1, b2] \<Rightarrow>
             if bad_second c b1 then 0xFFFD # utf8_decode rest
             else if \<not> is_cont b2 then 0xFFFD # utf8_decode [b2]
             else [0xFFFD]
         | b1 # b2 # b3 # r3 \<Rightarrow>
             if bad_second c b1 then 0xFFFD # utf8_decode rest
             else if \<not> is_cont b2 then 0xFFFD # utf8_decode (b2 # b3 # r3)
             else if \<not> is_cont b3 then 0xFFFD # utf8_decode (b3 # r3)
             else ((c - 0xF0) * 262144 + cont_bits b1 * 4096 + cont_bits b2 * 64 + cont_bits b3)
                  # utf8_decode r3)
      else 0xFFFD # utf8_decode rest)"

text \<open>
  Big-endian values of byte strings. \<open>be_uint\<close> reads any number of bytes as an unsigned
  integer; \<open>be_bytes n v\<close> gives the low \<open>n\<close> bytes of \<open>v\<close> in two's complement.
\<close>

definition be_uint :: "bytes \<Rightarrow> int" where
  "be_uint bs = foldl (\<lambda>a b. a * 256 + uint b) 0 bs"

fun be_bytes :: "nat \<Rightarrow> int \<Rightarrow> bytes" where
  "be_bytes 0 v = []"
| "be_bytes (Suc n) v = be_bytes n (v div 256) @ [word_of_int v]"

text \<open>
  \<open>struct.pack\<close> for the formats \<open>>H\<close>, \<open>>i\<close>, \<open>>I\<close>, \<open>>B\<close> and \<open>>?\<close>: a value outside
  the format's range raises \<open>struct.error\<close>.
\<close>

definition pack_H :: "int \<Rightarrow> py_error + bytes" where
  "pack_H v = (if 0 \<le> v \<and> v < 65536 then Inr (be_bytes 2 v) else Inl StructError)"

definition pack_i :: "int \<Rightarrow> py_error + bytes" where
  "pack_i v =
     (if - 2147483648 \<le> v \<and> v < 2147483648 then Inr (be_bytes 4 v) else Inl StructError)"

definition pack_I :: "int \<Rightarrow> py_error + bytes" where
  "pack_I v = (if 0 \<le> v \<and> v < 4294967296 then Inr (be_bytes 4 v) else Inl StructError)"

definition pack_B :: "int \<Rightarrow> py_error + bytes" where
  "pack_B v = (if 0 \<le> v \<and> v < 256 then Inr (be_bytes 1 v) else Inl StructError)"

definition pack_bool :: "bool \<Rightarrow> bytes" where
  "pack_bool v = [if v then 1 else 0]"

text \<open>
  \<open>struct.unpack\<close> for \<open>>H\<close>, \<open>>I\<close>, \<open>>i\<close> and \<open>>h\<close>: a buffer of the wrong size raises
  \<open>struct.error\<close>. The signed formats read the two's complement value.
\<close>

definition unpack_H :: "bytes \<Rightarrow> py_error + int" where
  "unpack_H bs = (if length bs = 2 then Inr (be_uint bs) else Inl StructError)"

definition unpack_I :: "bytes \<Rightarrow> py_error + int" where
  "unpack_I bs = (if length bs = 4 then Inr (be_uint bs) else Inl StructError)"

definition unpack_i :: "bytes \<Rightarrow> py_error + int" where
  "unpack_i bs =
     (if length bs = 4
      then Inr (if be_uint bs < 2147483648 then be_uint bs else be_uint bs - 4294967296)
      else Inl StructError)"

definition unpack_h :: "bytes \<Rightarrow> py_error + int" where
  "unpack_h bs =
     (if length bs = 2
      then Inr (if be_uint bs < 32768 then be_uint bs else be_uint bs - 65536)
      else Inl StructError)"

text \<open>The slice \<open>xs[a:b]\<close> for indices \<open>0 \<le> a\<close>, \<open>0 \<le> b\<close>: it is clamped, never an error.\<close>

definition slice :: "'a list \<Rightarrow> nat \<Rightarrow> nat \<Rightarrow> 'a list" where
  "slice xs a b = take (b - a) (drop a xs)"

subsection \<open>\<open>HabboPacket\<close>: the builder of outgoing packets\<close>

record HabboPacket =
  hp_id :: int
  hp_buffer :: bytes

definition write_short :: "HabboPacket \<Rightarrow> int \<Rightarrow> py_error + HabboPacket" where
  "write_short p val =
     (case pack_H val of
        Inl e \<Rightarrow> Inl e
      | Inr bs \<Rightarrow> Inr (p\<lparr>hp_buffer := hp_buffer p @ bs\<rparr>))"

definition write_integer :: "HabboPacket \<Rightarrow> int \<Rightarrow> py_error + HabboPacket" where
  "write_integer p val =
     (case pack_i val of
        Inl e \<Rightarrow> Inl e
      | Inr bs \<Rightarrow> Inr (p\<lparr>hp_buffer := hp_buffer p @ bs\<rparr>))"

definition write_boolean :: "HabboPacket \<Rightarrow> bool \<Rightarrow> py_error + HabboPacket" where
  "write_boolean p val = Inr (p\<lparr>hp_buffer := hp_buffer p @ pack_bool val\<rparr>)"

definition write_byte :: "HabboPacket \<Rightarrow> int \<Rightarrow> py_error + HabboPacket" where
  "write_byte p val =
     (case pack_B val of
        Inl e \<Rightarrow> Inl e
      | Inr bs \<Rightarrow> Inr (p\<lparr>hp_buffer := hp_buffer p @ bs\<rparr>))"

definition write_string :: "HabboPacket \<Rightarrow> str \<Rightarrow> py_error + HabboPacket" where
  "write_string p s =
     (case utf8_encode s of
        Inl e \<Rightarrow> Inl e
      | Inr encoded \<Rightarrow>
          (case write_short p (int (length encoded)) of
             Inl e \<Rightarrow> Inl e
           | Inr p1 \<Rightarrow> Inr (p1\<lparr>hp_buffer := hp_buffer p1 @ encoded\<rparr>)))"

text \<open>
  The arguments of \<open>_write_arg\<close>. A Python \<open>bool\<close> is an instance of \<open>int\<close>, so the
  second test of \<open>_write_arg\<close> takes it and writes it as a 4-byte integer.
\<close>

datatype py_arg = AStr str | AInt int | ABool bool | AOther

definition write_arg :: "HabboPacket \<Rightarrow> py_arg \<Rightarrow> py_error + HabboPacket" where
  "write_arg p arg =
     (case arg of
        AStr s \<Rightarrow> write_string p s
      | AInt v \<Rightarrow> write_integer p v
      | ABool b \<Rightarrow> write_integer p (if b then 1 else 0)
      | AOther \<Rightarrow> Inl TypeError)"

fun write_args :: "HabboPacket \<Rightarrow> py_arg list \<Rightarrow> py_error + HabboPacket" where
  "write_args p [] = Inr p"
| "write_args p (a # as) =
     (case write_arg p a of Inl e \<Rightarrow> Inl e | Inr p1 \<Rightarrow> write_args p1 as)"

definition HabboPacket_init :: "int \<Rightarrow> py_arg list \<Rightarrow> py_error + HabboPacket" where
  "HabboPacket_init packet_id args =
     (case write_short \<lparr>hp_id = packet_id, hp_buffer = []\<rparr> packet_id of
        Inl e \<Rightarrow> Inl e
      | Inr p \<Rightarrow> write_args p args)"

definition get_bytes :: "HabboPacket \<Rightarrow> py_error + bytes" where
  "get_bytes p =
     (case pack_I (int (length (hp_buffer p))) of
        Inl e \<Rightarrow> Inl e
      | Inr len \<Rightarrow> Inr (len @ hp_buffer p))"

subsection \<open>\<open>Buffer\<close>: the reader of incoming payloads\<close>

record Buffer =
  buffer :: bytes
  pos :: nat

definition Buffer_init :: "bytes \<Rightarrow> Buffer" where
  "Buffer_init data = \<lparr>buffer = data, pos = 0\<rparr>"

text \<open>
  The guard of each fixed-width reader makes the slice exactly as long as the format, so
  \<open>struct.unpack\<close> does not raise there and the value is that of \<open>be_uint\<close>.
  \<open>read_integer\<close> unpacks with \<open>>I\<close>, the unsigned format.
\<close>

definition read_short :: "Buffer \<Rightarrow> int \<times> Buffer" where
  "read_short b =
     (if pos b + 2 > length (buffer b) then (0, b)
      else (be_uint (slice (buffer b) (pos b) (pos b + 2)), b\<lparr>pos := pos b + 2\<rparr>))"

definition read_integer :: "Buffer \<Rightarrow> int \<times> Buffer" where
  "read_integer b =
     (if pos b + 4 > length (buffer b) then (0, b)
      else (be_uint (slice (buffer b) (pos b) (pos b + 4)), b\<lparr>pos := pos b + 4\<rparr>))"

definition read_string :: "Buffer \<Rightarrow> str \<times> Buffer" where
  "read_string b =
     (let (len, b1) = read_short b;
          end_pos = pos b1 + nat len;
          end_pos = (if end_pos > length (buffer b1) then length (buffer b1) else end_pos);
          raw = slice (buffer b1) (pos b1) end_pos
      in (utf8_decode raw, b1\<lparr>pos := end_pos\<rparr>))"

definition read_boolean :: "Buffer \<Rightarrow> bool \<times> Buffer" where
  "read_boolean b =
     (if pos b + 1 > length (buffer b) then (False, b)
      else (buffer b ! pos b \<noteq> 0, b\<lparr>pos := pos b + 1\<rparr>))"

definition read_bytes :: "Buffer \<Rightarrow> nat \<Rightarrow> bytes \<times> Buffer" where
  "read_bytes b len = (slice (buffer b) (pos b) (pos b + len), b\<lparr>pos := pos b + len\<rparr>)"

definition get_remaining_bytes :: "Buffer \<Rightarrow> bytes" where
  "get_remaining_bytes b = drop (pos b) (buffer b)"

text \<open>
  The split of a received frame body into packet id and payload, as the last lines of
  \<open>_receive_packet\<close> do it: \<open>struct.unpack('>H', data[:2])\<close> and \<open>data[2:]\<close>.
\<close>

definition split_frame :: "bytes \<Rightarrow> py_error + int \<times> bytes" where
  "split_frame data =
     (case unpack_H (take 2 data) of
        Inl e \<Rightarrow> Inl e
      | Inr packet_id \<Rightarrow> Inr (packet_id, drop 2 data))"

text \<open>
  The codec round trip for one 4-byte integer field: build a packet with \<open>write_integer\<close>,
  emit it with \<open>get_bytes\<close>, drop the 4-byte length prefix, split the rest into id and
  body, and read the field back with \<open>read_integer\<close>.
\<close>

definition roundtrip_integer :: "int \<Rightarrow> int \<Rightarrow> py_error + int \<times> int" where
  "roundtrip_integer packet_id val =
     (case HabboPacket_init packet_id [] of
        Inl e \<Rightarrow> Inl e
      | Inr p \<Rightarrow>
          (case write_integer p val of
             Inl e \<Rightarrow> Inl e
           | Inr p1 \<Rightarrow>
               (case get_bytes p1 of
                  Inl e \<Rightarrow> Inl e
                | Inr emitted \<Rightarrow>
                    (case split_frame (drop 4 emitted) of
                       Inl e \<Rightarrow> Inl e
                     | Inr (pid, body) \<Rightarrow> Inr (pid, fst (read_integer (Buffer_init body)))))))"

section \<open>room_map.py and parsers.py: the room geometry\<close>

text \<open>
  The fields of class \<open>RoomMap\<close> (the unused legacy field \<open>map\<close> is left out). A cell of
  \<open>floor_map\<close> is a Python string: the empty string it is initialised with, or one
  character. A tile height is \<open>k / 256.0\<close> for an integer \<open>0 \<le> k < 16384\<close>, which a float
  holds exactly, so it is kept as a rational number.
\<close>

record RoomMap =
  width :: nat
  height :: nat
  floor_map :: "str list list"
  tile_heights :: "rat list list"
  stacking_blocked :: "bool list list"
  is_room_tile :: "bool list list"
  door_x :: int
  door_y :: int

definition RoomMap_init :: RoomMap where
  "RoomMap_init =
     \<lparr>width = 0, height = 0, floor_map = [], tile_heights = [], stacking_blocked = [],
      is_room_tile = [], door_x = - 1, door_y = - 1\<rparr>"

subsection \<open>String helpers\<close>

text \<open>The code points for which \<open>str.isspace\<close> holds; \<open>str.strip()\<close> removes them.\<close>

definition py_isspace :: "nat \<Rightarrow> bool" where
  "py_isspace c =
     ((9 \<le> c \<and> c \<le> 13) \<or> (28 \<le> c \<and> c \<le> 32) \<or> c = 0x85 \<or> c = 0xA0 \<or> c = 0x1680
      \<or> (0x2000 \<le> c \<and> c \<le> 0x200A) \<or> c = 0x2028 \<or> c = 0x2029 \<or> c = 0x202F
      \<or> c = 0x205F \<or> c = 0x3000)"

definition strip :: "str \<Rightarrow> str" where
  "strip s = rev (dropWhile py_isspace (rev (dropWhile py_isspace s)))"

text \<open>\<open>s.split(sep)\<close> for a one-character separator: never an empty list.\<close>

fun split_on :: "nat \<Rightarrow> str \<Rightarrow> str list" where
  "split_on sep [] = [[]]"
| "split_on sep (c # cs) =
     (if c = sep then [] # split_on sep cs
      else (case split_on sep cs of
              [] \<Rightarrow> [[c]]
            | r # rs \<Rightarrow> (c # r) # rs))"

text \<open>
  \<open>xs[i]\<close> for a Python list or string: a negative index counts from the end, an index
  outside \<open>-len .. len - 1\<close> raises \<open>IndexError\<close>.
\<close>

definition py_index :: "'a list \<Rightarrow> int \<Rightarrow> py_error + 'a" where
  "py_index xs i =
     (let n = int (length xs); k = (if i < 0 then n + i else i)
      in if 0 \<le> k \<and> k < n then Inr (xs ! nat k) else Inl IndexError)"

text \<open>
  The comparisons with the letter x. \<open>s == 'x'\<close> is exact. For \<open>s.lower() == 'x'\<close>: the
  only strings whose lower-case form is \<open>x\<close> are \<open>x\<close> and \<open>X\<close>.
\<close>

definition is_x :: "str \<Rightarrow> bool" where
  "is_x s = (s = [0x78])"

definition lower_is_x :: "str \<Rightarrow> bool" where
  "lower_is_x s = (s = [0x78] \<or> s = [0x58])"

subsection \<open>\<open>parse_floor_height_map\<close>\<close>

text \<open>
  The loop \<open>floor_map[y][x] = tile_char\<close> over one row, from column \<open>x\<close> on, and over the
  rows from row \<open>y\<close> on. A row longer than \<open>width\<close> raises \<open>IndexError\<close> after the cells
  before it have been stored.
\<close>

fun fill_row :: "str list list \<Rightarrow> nat \<Rightarrow> nat \<Rightarrow> str \<Rightarrow> py_error option \<times> str list list" where
  "fill_row fm y x [] = (None, fm)"
| "fill_row fm y x (tile_char # cs) =
     (if y < length fm \<and> x < length (fm ! y)
      then fill_row (fm[y := (fm ! y)[x := [tile_char]]]) y (Suc x) cs
      else (Some IndexError, fm))"

fun fill_rows :: "str list list \<Rightarrow> nat \<Rightarrow> str list \<Rightarrow> py_error option \<times> str list list" where
  "fill_rows fm y [] = (None, fm)"
| "fill_rows fm y (row_str # rest) =
     (case fill_row fm y 0 row_str of
        (Some e, fm1) \<Rightarrow> (Some e, fm1)
      | (None, fm1) \<Rightarrow> fill_rows fm1 (Suc y) rest)"

text \<open>
  \<open>rows[a][b] == 'x'\<close>, with the \<open>IndexError\<close> of either index, and Python's
  short-circuit \<open>and\<close> over such tests: the right operand is evaluated, and can raise,
  only when the left one is true.
\<close>

definition cell_is_x :: "str list \<Rightarrow> int \<Rightarrow> int \<Rightarrow> py_error + bool" where
  "cell_is_x rows a b =
     (case py_index rows a of
        Inl e \<Rightarrow> Inl e
      | Inr row \<Rightarrow> (case py_index row b of Inl e \<Rightarrow> Inl e | Inr ch \<Rightarrow> Inr (is_x [ch])))"

definition py_and :: "py_error + bool \<Rightarrow> py_error + bool \<Rightarrow> py_error + bool" where
  "py_and a b = (case a of Inl e \<Rightarrow> Inl e | Inr t \<Rightarrow> if t then b else Inr False)"

text \<open>
  The body of the \<open>try\<close> of the door heuristic for the cell \<open>(x, y)\<close>: the direction 90
  or 180 of the first matching pattern, 0 when neither matches, or the \<open>IndexError\<close>.
\<close>

definition door_match :: "str list \<Rightarrow> int \<Rightarrow> int \<Rightarrow> py_error + int" where
  "door_match rows y x =
     (case py_and (cell_is_x rows (y - 1) x)
             (py_and (cell_is_x rows y (x - 1)) (cell_is_x rows (y + 1) x)) of
        Inl e \<Rightarrow> Inl e
      | Inr east \<Rightarrow>
          if east then Inr 90
          else (case py_and (cell_is_x rows (y - 1) x)
                       (py_and (cell_is_x rows y (x - 1)) (cell_is_x rows y (x + 1))) of
                  Inl e \<Rightarrow> Inl e
                | Inr south \<Rightarrow> if south then Inr 180 else Inr 0))"

text \<open>
  The inner loop over \<open>x\<close> and the outer loop over \<open>y\<close>, on the triple
  \<open>(door_x, door_y, door_dir)\<close>. A match breaks the inner loop; the outer loop breaks when
  \<open>door_x != -1\<close>. An \<open>IndexError\<close> goes on with the next cell.
\<close>

fun scan_row :: "str list list \<Rightarrow> str list \<Rightarrow> nat \<Rightarrow> nat list \<Rightarrow> int \<times> int \<times> int \<Rightarrow> int \<times> int \<times> int" where
  "scan_row fm rows y [] door = door"
| "scan_row fm rows y (x # xs) door =
     (if lower_is_x (fm ! y ! x) then scan_row fm rows y xs door
      else (case door_match rows (int y) (int x) of
              Inl e \<Rightarrow> scan_row fm rows y xs door
            | Inr dir \<Rightarrow>
                if dir = 0 then scan_row fm rows y xs door else (int x, int y, dir)))"

fun scan_rows :: "str list list \<Rightarrow> str list \<Rightarrow> nat \<Rightarrow> nat list \<Rightarrow> int \<times> int \<times> int \<Rightarrow> int \<times> int \<times> int" where
  "scan_rows fm rows w [] door = door"
| "scan_rows fm rows w (y # ys) door =
     (let door1 = scan_row fm rows y [0..<w] door
      in if fst door1 \<noteq> - 1 then door1 else scan_rows fm rows w ys door1)"

text \<open>
  \<open>parse_floor_height_map(payload, room_map)\<close>. The room map is mutated in place, so the
  result is the exception, if one is raised, with the room map as it is then. The three
  grids of the height map are initialised only after the character grid has been filled.
\<close>

definition parse_floor_height_map :: "bytes \<Rightarrow> RoomMap \<Rightarrow> py_error option \<times> RoomMap" where
  "parse_floor_height_map payload room_map =
     (let buf = Buffer_init payload;
          (use_legacy_parser, buf) = read_boolean buf;
          (wall_height, buf) = read_integer buf;
          (map_string, buf) = read_string buf;
          rows = split_on 13 (strip map_string);
          h = length rows;
          w = (if h > 0 then length (rows ! 0) else 0);
          rm = room_map\<lparr>height := h, width := w, floor_map := replicate h (replicate w [])\<rparr>
      in case fill_rows (floor_map rm) 0 rows of
           (Some e, fm) \<Rightarrow> (Some e, rm\<lparr>floor_map := fm\<rparr>)
         | (None, fm) \<Rightarrow>
             (let rm = rm\<lparr>floor_map := fm,
                          tile_heights := replicate h (replicate w 0),
                          stacking_blocked := replicate h (replicate w False),
                          is_room_tile := replicate h (replicate w False)\<rparr>;
                  (dx, dy, dir) = scan_rows fm rows w [0..<h] (- 1, - 1, 0)
              in (None, rm\<lparr>door_x := dx, door_y := dy\<rparr>)))"

subsection \<open>\<open>parse_height_map\<close>\<close>

text \<open>\<open>grid[y][x] = v\<close>, with the \<open>IndexError\<close> of a grid that is too small.\<close>

definition set_cell :: "'a list list \<Rightarrow> nat \<Rightarrow> nat \<Rightarrow> 'a \<Rightarrow> py_error + 'a list list" where
  "set_cell grid y x v =
     (if y < length grid \<and> x < length (grid ! y) then Inr (grid[y := (grid ! y)[x := v]])
      else Inl IndexError)"

text \<open>
  The three stores for one tile, in the order of the source, then the inner loop over
  \<open>x\<close> (its \<open>break\<close> leaves only this loop) and the outer loop over \<open>y\<close>.
\<close>

definition store_tile :: "int \<Rightarrow> nat \<Rightarrow> nat \<Rightarrow> RoomMap \<Rightarrow> py_error option \<times> RoomMap" where
  "store_tile tile_value y x rm =
     (case set_cell (stacking_blocked rm) y x (tile_value AND 16384 \<noteq> 0) of
        Inl e \<Rightarrow> (Some e, rm)
      | Inr sb \<Rightarrow>
          (let rm1 = rm\<lparr>stacking_blocked := sb\<rparr>
           in case set_cell (is_room_tile rm1) y x (tile_value AND 512 = 0) of
                Inl e \<Rightarrow> (Some e, rm1)
              | Inr rt \<Rightarrow>
                  (let rm2 = rm1\<lparr>is_room_tile := rt\<rparr>
                   in case set_cell (tile_heights rm2) y x
                             (of_int (tile_value AND 16383) / 256) of
                        Inl e \<Rightarrow> (Some e, rm2)
                      | Inr th \<Rightarrow> (None, rm2\<lparr>tile_heights := th\<rparr>))))"

fun height_row :: "bytes \<Rightarrow> nat \<Rightarrow> nat \<Rightarrow> nat list \<Rightarrow> RoomMap \<Rightarrow> py_error option \<times> RoomMap" where
  "height_row raw w y [] rm = (None, rm)"
| "height_row raw w y (x # xs) rm =
     (let index = (y * w + x) * 2
      in if index + 2 > length raw then (None, rm)
         else (case unpack_h (slice raw index (index + 2)) of
                 Inl e \<Rightarrow> (Some e, rm)
               | Inr tile_value \<Rightarrow>
                   (case store_tile tile_value y x rm of
                      (Some e, rm1) \<Rightarrow> (Some e, rm1)
                    | (None, rm1) \<Rightarrow> height_row raw w y xs rm1)))"

fun height_rows :: "bytes \<Rightarrow> nat \<Rightarrow> nat list \<Rightarrow> RoomMap \<Rightarrow> py_error option \<times> RoomMap" where
  "height_rows raw w [] rm = (None, rm)"
| "height_rows raw w (y # ys) rm =
     (case height_row raw w y [0..<w] rm of
        (Some e, rm1) \<Rightarrow> (Some e, rm1)
      | (None, rm1) \<Rightarrow> height_rows raw w ys rm1)"

definition parse_height_map :: "bytes \<Rightarrow> RoomMap \<Rightarrow> py_error option \<times> RoomMap" where
  "parse_height_map payload room_map =
     (let w = width room_map; h = height room_map
      in if w = 0 \<or> h = 0 then (None, room_map)
         else (let expected_size = w * h * 2;
                   raw_map_data = (if length payload \<noteq> expected_size
                                   then take expected_size payload else payload)
               in height_rows raw_map_data w [0..<h] room_map))"

subsection \<open>The door scenario\<close>

text \<open>
  The map text \<open>xxxxx\rx0000\rx000x\rxxxxx\<close> in UTF-8 (23 bytes), its rows, and the
  character grid they fill. \<open>scenario_payload\<close> is a floor-height-map payload that carries
  this text: flag byte 0, wall height 0, string length \<open>00 17\<close>.
\<close>

definition scenario_text :: bytes where
  "scenario_text =
     [120, 120, 120, 120, 120, 13, 120, 48, 48, 48, 48, 13, 120, 48, 48, 48, 120, 13,
      120, 120, 120, 120, 120]"

definition scenario_rows :: "str list" where
  "scenario_rows =
     [[120, 120, 120, 120, 120], [120, 48, 48, 48, 48], [120, 48, 48, 48, 120],
      [120, 120, 120, 120, 120]]"

definition scenario_floor_map :: "str list list" where
  "scenario_floor_map =
     [[[120], [120], [120], [120], [120]], [[120], [48], [48], [48], [48]],
      [[120], [48], [48], [48], [120]], [[120], [120], [120], [120], [120]]]"

definition scenario_payload :: bytes where
  "scenario_payload = 0 # 0 # 0 # 0 # 0 # 0 # 23 # scenario_text"

subsection \<open>Grids of the dimensions of the room\<close>

text \<open>
  The three grids written by \<open>parse_height_map\<close> have \<open>height\<close> rows of \<open>width\<close> cells:
  the state in which \<open>parse_floor_height_map\<close> leaves a room map when it raises nothing.
\<close>

definition grid_ok :: "nat \<Rightarrow> nat \<Rightarrow> 'a list list \<Rightarrow> bool" where
  "grid_ok h w g = (length g = h \<and> (\<forall>row \<in> set g. length row = w))"

definition dims_ok :: "RoomMap \<Rightarrow> bool" where
  "dims_ok rm =
     (grid_ok (height rm) (width rm) (stacking_blocked rm) \<and>
      grid_ok (height rm) (width rm) (is_room_tile rm) \<and>
      grid_ok (height rm) (width rm) (tile_heights rm))"

section \<open>habbo_client.py: the session\<close>

subsection \<open>Constants and small parsers\<close>

text \<open>The incoming and outgoing packet ids of \<open>constants.py\<close> that the session uses.\<close>

definition PING :: int where "PING = 2829"
definition FLOOD_CONTROL :: int where "FLOOD_CONTROL = 1475"
definition AUTHENTICATION_OK :: int where "AUTHENTICATION_OK = 115"
definition SERVER_INIT_DIFFIE_HANDSHAKE :: int where "SERVER_INIT_DIFFIE_HANDSHAKE = 503"
definition SERVER_COMPLETE_DIFFIE_HANDSHAKE :: int where "SERVER_COMPLETE_DIFFIE_HANDSHAKE = 3722"
definition USERS :: int where "USERS = 2887"
definition USER_REMOVE :: int where "USER_REMOVE = 1069"
definition FLOOR_HEIGHT_MAP :: int where "FLOOR_HEIGHT_MAP = 590"
definition HEIGHT_MAP :: int where "HEIGHT_MAP = 3055"
definition NAVIGATOR_SEARCH_RESULT_BLOCKS :: int where "NAVIGATOR_SEARCH_RESULT_BLOCKS = 537"
definition FLAT_CREATED :: int where "FLAT_CREATED = 379"
definition USER_OBJECT :: int where "USER_OBJECT = 1157"

definition PONG :: int where "PONG = 2418"
definition INFO_RETRIEVE :: int where "INFO_RETRIEVE = 3745"
definition UPDATE_HOME_ROOM :: int where "UPDATE_HOME_ROOM = 763"

text \<open>The composers of \<open>composers.py\<close> that the receive loops call.\<close>

definition compose_pong :: "py_error + HabboPacket" where
  "compose_pong = HabboPacket_init PONG []"

definition compose_info_retrieve :: "py_error + HabboPacket" where
  "compose_info_retrieve = HabboPacket_init INFO_RETRIEVE []"

definition compose_update_home_room :: "int \<Rightarrow> py_error + HabboPacket" where
  "compose_update_home_room room_id =
     (case HabboPacket_init UPDATE_HOME_ROOM [] of
        Inl e \<Rightarrow> Inl e
      | Inr packet \<Rightarrow> write_integer packet room_id)"

text \<open>
  \<open>parse_user_object\<close> and \<open>parse_flat_created\<close> of \<open>parsers.py\<close>. The readers never
  raise, so neither do these.
\<close>

record UserObject =
  user_id :: int
  name :: str
  last_access_date :: str
  name_change_allowed :: bool

definition parse_user_object :: "bytes \<Rightarrow> UserObject" where
  "parse_user_object payload =
     (let buf = Buffer_init payload;
          (uid, buf) = read_integer buf;
          (nm, buf) = read_string buf;
          (figure, buf) = read_string buf;
          (gender, buf) = read_string buf;
          (custom_data, buf) = read_integer buf;
          (real_name, buf) = read_integer buf;
          (direct_mail, buf) = read_boolean buf;
          (respect_total, buf) = read_integer buf;
          (respect_left, buf) = read_integer buf;
          (stream_publishing, buf) = read_boolean buf;
          (lad, buf) = read_string buf;
          (nca, buf) = read_boolean buf
      in \<lparr>user_id = uid, name = nm, last_access_date = lad, name_change_allowed = nca\<rparr>)"

definition parse_flat_created :: "bytes \<Rightarrow> int" where
  "parse_flat_created payload =
     (let buf = Buffer_init payload;
          (room_id, buf) = read_integer buf;
          (room_name, buf) = read_string buf
      in room_id)"

text \<open>
  \<open>"habb" in s.lower()\<close>. Lower-casing maps \<open>A\<close> to \<open>Z\<close> onto \<open>a\<close> to \<open>z\<close>; the letters
  of \<open>habb\<close> are the lower-case form of no other code point, so the other code points can be
  left as they are for this test. \<open>startswith\<close> is the prefix test, \<open>contains\<close> the
  substring test \<open>needle in s\<close>.
\<close>

definition lower_ascii :: "str \<Rightarrow> str" where
  "lower_ascii s = map (\<lambda>c. if 65 \<le> c \<and> c \<le> 90 then c + 32 else c) s"

fun startswith :: "str \<Rightarrow> str \<Rightarrow> bool" where
  "startswith s [] = True"
| "startswith [] (p # ps) = False"
| "startswith (c # cs) (p # ps) = (c = p \<and> startswith cs ps)"

fun contains :: "str \<Rightarrow> str \<Rightarrow> bool" where
  "contains [] needle = (needle = [])"
| "contains (c # cs) needle = (startswith (c # cs) needle \<or> contains cs needle)"

text \<open>\<open>str(n)\<close> for an integer, used by the default user name \<open>Bot {}\<close>.\<close>

function decimal :: "nat \<Rightarrow> str" where
  "decimal n = (if n < 10 then [48 + n] else decimal (n div 10) @ [48 + n mod 10])"
  by pat_completeness auto
termination
  by (relation "measure id") auto

definition str_of_int :: "int \<Rightarrow> str" where
  "str_of_int v = (if v < 0 then 45 # decimal (nat (- v)) else decimal (nat v))"

subsection \<open>The session state\<close>

text \<open>
  The socket, as far as the session can observe it: whether \<open>sendall\<close> on it raises. The
  fields of \<open>HabboClientGUI\<close> that the receive loops and the send path read or write.
  Three fields record effects on the outside: \<open>wire_out\<close> the bytes written to the socket,
  \<open>status_log\<close> the arguments of the \<open>status_updater\<close> calls, and \<open>nux_threads\<close> the number
  of threads started on \<open>_run_nux_flow\<close>. The user cache, the chat tracking, the random
  walker, the logger and the mute and navigator callbacks are not part of the model.
\<close>

record Socket =
  sendall_raises :: bool

record Client =
  sock :: "Socket option"
  outgoing_cipher :: "ArcFour option"
  incoming_cipher :: "ArcFour option"
  connected :: bool
  is_banned :: bool
  room_map :: RoomMap
  pending_height_map_payload :: "bytes option"
  in_room_event :: bool
  username :: str
  nux_running :: bool
  nux_threads :: nat
  wire_out :: bytes
  status_log :: "string list"

definition Client_init :: "int \<Rightarrow> Client" where
  "Client_init bot_index =
     \<lparr>sock = None, outgoing_cipher = None, incoming_cipher = None, connected = False,
      is_banned = False, room_map = RoomMap_init, pending_height_map_payload = None,
      in_room_event = False, username = ascii ''Bot '' @ str_of_int bot_index,
      nux_running = False, nux_threads = 0, wire_out = [], status_log = []\<rparr>"

text \<open>
  \<open>disconnect\<close>. The status observer is called only if the session was connected and the
  caller is not the listener thread.
\<close>

definition disconnect :: "bool \<Rightarrow> Client \<Rightarrow> Client" where
  "disconnect on_listener_thread c =
     (let was_connected = connected c;
          c = c\<lparr>connected := False\<rparr>;
          c = (if sock c \<noteq> None then c\<lparr>sock := None\<rparr> else c)
      in if was_connected \<and> \<not> on_listener_thread
         then c\<lparr>status_log := status_log c @ [if is_banned c then ''Banned'' else ''Disconnected'']\<rparr>
         else c)"

text \<open>
  \<open>send_packet\<close>, called on the thread \<open>on_listener_thread\<close> tells. The first line returns
  when the session is not connected or has no socket. Otherwise the bytes of the packet are
  encrypted by the outgoing cipher, if there is one, which advances it, and written; any
  exception marks the session disconnected and closes the socket.
\<close>

definition sendall :: "bool \<Rightarrow> Client \<Rightarrow> bytes \<Rightarrow> Client" where
  "sendall on_listener_thread c data =
     (case sock c of
        None \<Rightarrow> disconnect on_listener_thread (c\<lparr>connected := False\<rparr>)
      | Some s \<Rightarrow>
          if sendall_raises s then disconnect on_listener_thread (c\<lparr>connected := False\<rparr>)
          else c\<lparr>wire_out := wire_out c @ data\<rparr>)"

definition send_packet :: "bool \<Rightarrow> Client \<Rightarrow> HabboPacket \<Rightarrow> Client" where
  "send_packet on_listener_thread c packet =
     (if \<not> connected c \<or> sock c = None then c
      else (case get_bytes packet of
              Inl e \<Rightarrow> disconnect on_listener_thread (c\<lparr>connected := False\<rparr>)
            | Inr raw_data \<Rightarrow>
                (case outgoing_cipher c of
                   Some cipher \<Rightarrow>
                     (let (cipher1, encrypted_data) = encrypt cipher raw_data
                      in sendall on_listener_thread
                           (c\<lparr>outgoing_cipher := Some cipher1\<rparr>) encrypted_data)
                 | None \<Rightarrow> sendall on_listener_thread c raw_data)))"

text \<open>\<open>_send_plaintext_packet\<close>: no test of the connection, no cipher.\<close>

definition send_plaintext_packet :: "bool \<Rightarrow> Client \<Rightarrow> HabboPacket \<Rightarrow> py_error option \<times> Client" where
  "send_plaintext_packet on_listener_thread c packet =
     (case get_bytes packet of
        Inl e \<Rightarrow> (Some e, c)
      | Inr data \<Rightarrow> (None, sendall on_listener_thread c data))"

subsection \<open>The disconnect-reason frame\<close>

text \<open>
  \<open>_handle_disconnect_reason\<close>. \<open>struct.unpack('>i', payload)\<close> raises unless the payload
  has exactly four bytes; that exception is swallowed. For the codes 1 and 10 the session is
  marked banned and \<open>BanDetectedException\<close> is raised; for any other code the reason is
  only logged.
\<close>

definition handle_disconnect_reason :: "bytes \<Rightarrow> Client \<Rightarrow> py_error option \<times> Client" where
  "handle_disconnect_reason payload c =
     (case unpack_i payload of
        Inl e \<Rightarrow> (None, c)
      | Inr reason_id \<Rightarrow>
          if reason_id = 1 \<or> reason_id = 10
          then (Some BanDetectedException, c\<lparr>is_banned := True\<rparr>)
          else (None, c))"

text \<open>The table \<open>DISCONNECT_REASONS\<close> with its default, as \<open>.get(reason_id, ...)\<close> reads it.\<close>

definition disconnect_reason :: "int \<Rightarrow> string" where
  "disconnect_reason reason_id =
     (if reason_id = - 2 then ''Maintenance Break''
      else if reason_id = 0 then ''Logged Out''
      else if reason_id = 1 then ''Banned (Just Banned)''
      else if reason_id = 10 then ''Banned (Still Banned)''
      else if reason_id \<in> {2, 13, 11, 18} then ''Concurrent Login''
      else if reason_id \<in> {12, 19} then ''Hotel Closed''
      else if reason_id = 20 then ''Incorrect Password''
      else if reason_id = 112 then ''Idle Timeout''
      else if reason_id = 122 then ''Incompatible Client Version''
      else ''Generic/Unknown'')"

subsection \<open>The listener\<close>

text \<open>
  One iteration of the loop of \<open>_listen_for_packets\<close>, after \<open>_receive_packet\<close> has
  returned the frame \<open>(packet_id, payload)\<close>: the exception that leaves the loop, if any,
  and the new state. The branches for the ids 1030 and 3423 and for \<open>FLOOD_CONTROL\<close>,
  \<open>USERS\<close>, \<open>NAVIGATOR_SEARCH_RESULT_BLOCKS\<close> and \<open>USER_REMOVE\<close> touch only what the
  model leaves out and swallow their exceptions.

  For \<open>USER_OBJECT\<close> the thread started on \<open>_run_nux_flow\<close> sets \<open>_nux_running\<close> in its
  first statement; the model sets it with the start of the thread.
\<close>

definition on_user_object :: "bytes \<Rightarrow> Client \<Rightarrow> Client" where
  "on_user_object payload c =
     (let user_obj = parse_user_object payload;
          c = c\<lparr>username := name user_obj\<rparr>
      in if contains (lower_ascii (username c)) (ascii ''habb'') \<and> \<not> nux_running c
         then c\<lparr>nux_running := True, nux_threads := nux_threads c + 1\<rparr>
         else c)"

definition on_flat_created :: "bytes \<Rightarrow> Client \<Rightarrow> Client" where
  "on_flat_created payload c =
     (case compose_update_home_room (parse_flat_created payload) of
        Inl e \<Rightarrow> c
      | Inr packet \<Rightarrow> send_packet True c packet)"

definition on_floor_height_map :: "bytes \<Rightarrow> Client \<Rightarrow> py_error option \<times> Client" where
  "on_floor_height_map payload c =
     (let c = c\<lparr>in_room_event := True\<rparr>
      in case parse_floor_height_map payload (room_map c) of
           (Some e, rm) \<Rightarrow> (Some e, c\<lparr>room_map := rm\<rparr>)
         | (None, rm) \<Rightarrow>
             (let c = c\<lparr>room_map := rm\<rparr>
              in case pending_height_map_payload c of
                   None \<Rightarrow> (None, c)
                 | Some pending \<Rightarrow>
                     if pending = [] then (None, c)
                     else (case parse_height_map pending (room_map c) of
                             (Some e, rm1) \<Rightarrow> (Some e, c\<lparr>room_map := rm1\<rparr>)
                           | (None, rm1) \<Rightarrow>
                               (None, c\<lparr>room_map := rm1,
                                        pending_height_map_payload := None\<rparr>))))"

definition on_height_map :: "bytes \<Rightarrow> Client \<Rightarrow> py_error option \<times> Client" where
  "on_height_map payload c =
     (if width (room_map c) > 0
      then (case parse_height_map payload (room_map c) of
              (e, rm) \<Rightarrow> (e, c\<lparr>room_map := rm\<rparr>))
      else (None, c\<lparr>pending_height_map_payload := Some payload\<rparr>))"

definition listener_step :: "int \<times> bytes \<Rightarrow> Client \<Rightarrow> py_error option \<times> Client" where
  "listener_step frame c =
     (let packet_id = fst frame; payload = snd frame
      in if packet_id = 1030 then (None, c)
         else if packet_id = 3423 then (None, c)
         else if packet_id = 4000 then handle_disconnect_reason payload c
         else if packet_id = 1510 then (Some BanDetectedException, c\<lparr>is_banned := True\<rparr>)
         else if packet_id = PING then
           (case compose_pong of
              Inl e \<Rightarrow> (Some e, c)
            | Inr packet \<Rightarrow> (None, send_packet True c packet))
         else if packet_id = FLOOD_CONTROL then (None, c)
         else if packet_id = USERS then (None, c)
         else if packet_id = USER_OBJECT then (None, on_user_object payload c)
         else if packet_id = FLAT_CREATED then (None, on_flat_created payload c)
         else if packet_id = NAVIGATOR_SEARCH_RESULT_BLOCKS then (None, c)
         else if packet_id = FLOOR_HEIGHT_MAP then on_floor_height_map payload c
         else if packet_id = HEIGHT_MAP then on_height_map payload c
         else if packet_id = USER_REMOVE then (None, c)
         else (None, c))"

text \<open>
  The end of \<open>_listen_for_packets\<close>: the \<open>except\<close> clauses (only the one for
  \<open>BanDetectedException\<close> changes the state), then the \<open>finally\<close> block.
\<close>

definition listener_exit :: "py_error option \<Rightarrow> Client \<Rightarrow> Client" where
  "listener_exit raised c =
     (let c = (if raised = Some BanDetectedException then c\<lparr>is_banned := True\<rparr> else c);
          c = c\<lparr>connected := False\<rparr>;
          c = disconnect True c
      in c\<lparr>status_log := status_log c @ [if is_banned c then ''Banned'' else ''Disconnected'']\<rparr>)"

text \<open>
  \<open>_listen_for_packets\<close> on the frames that \<open>_receive_packet\<close> returns one after the
  other. When they are used up the socket is closed or times out and \<open>_receive_packet\<close>
  raises.
\<close>

fun listen_for_packets :: "(int \<times> bytes) list \<Rightarrow> Client \<Rightarrow> Client" where
  "listen_for_packets [] c =
     (if connected c then listener_exit (Some ConnectionError) c else listener_exit None c)"
| "listen_for_packets (frame # frames) c =
     (if \<not> connected c then listener_exit None c
      else (case listener_step frame c of
              (Some e, c1) \<Rightarrow> listener_exit (Some e) c1
            | (None, c1) \<Rightarrow> listen_for_packets frames c1))"

subsection \<open>The receive loops before the listener\<close>

text \<open>
  What one iteration of a receive loop does next: go on with the next frame, leave the
  loop, return from \<open>connect\<close>, or raise.
\<close>

datatype loop_outcome = Continue | Break | Return bool | Raise py_error

text \<open>
  One iteration of the two loops of \<open>_do_handshake\<close>, which wait for the frame
  \<open>wanted\<close>; only the second loop answers a ping, with a plaintext pong.
\<close>

definition handshake_wait_step :: "int \<Rightarrow> bool \<Rightarrow> int \<times> bytes \<Rightarrow> Client \<Rightarrow> loop_outcome \<times> Client" where
  "handshake_wait_step wanted answer_ping frame c =
     (let packet_id = fst frame; payload = snd frame
      in if packet_id = 1510 then (Raise BanDetectedException, c\<lparr>is_banned := True\<rparr>)
         else (case (if packet_id = 4000 then handle_disconnect_reason payload c
                     else (None, c)) of
                 (Some e, c1) \<Rightarrow> (Raise e, c1)
               | (None, c1) \<Rightarrow>
                   if packet_id = wanted then (Break, c1)
                   else if packet_id = PING \<and> answer_ping then
                     (case compose_pong of
                        Inl e \<Rightarrow> (Raise e, c1)
                      | Inr packet \<Rightarrow>
                          (case send_plaintext_packet False c1 packet of
                             (Some e, c2) \<Rightarrow> (Raise e, c2)
                           | (None, c2) \<Rightarrow> (Continue, c2)))
                   else (Continue, c1)))"

text \<open>
  One iteration of the login loop of \<open>connect\<close>. On \<open>AUTHENTICATION_OK\<close> the listener and
  the keepalive threads are started and \<open>connect\<close> returns \<open>True\<close>.
\<close>

definition login_wait_step :: "int \<times> bytes \<Rightarrow> Client \<Rightarrow> loop_outcome \<times> Client" where
  "login_wait_step frame c =
     (let packet_id = fst frame; payload = snd frame
      in case (if packet_id = 4000 then handle_disconnect_reason payload c else (None, c)) of
           (Some e, c1) \<Rightarrow> (Raise e, c1)
         | (None, c1) \<Rightarrow>
             if packet_id = PING then
               (case compose_pong of
                  Inl e \<Rightarrow> (Raise e, c1)
                | Inr packet \<Rightarrow> (Continue, send_packet False c1 packet))
             else if packet_id = FLOOD_CONTROL then (Continue, c1)
             else if packet_id = AUTHENTICATION_OK then
               (case compose_info_retrieve of
                  Inl e \<Rightarrow> (Raise e, c1)
                | Inr packet \<Rightarrow> (Return True, send_packet False c1 packet))
             else if packet_id = 1510 then
               (Raise BanDetectedException, c1\<lparr>is_banned := True\<rparr>)
             else (Continue, c1))"

text \<open>
  The \<open>except\<close> clauses of \<open>connect\<close>, which take every exception of the handshake and of
  the login loop: the session is disconnected, marked banned first for
  \<open>BanDetectedException\<close>, and \<open>connect\<close> returns \<open>False\<close>.
\<close>

definition connect_except :: "py_error \<Rightarrow> Client \<Rightarrow> Client" where
  "connect_except e c =
     (if e = BanDetectedException then disconnect False (c\<lparr>is_banned := True\<rparr>)
      else disconnect False c)"

subsection \<open>A session in the listener\<close>

text \<open>
  A session as \<open>connect\<close> leaves it to the listener when the server has not asked for
  encryption of the incoming direction: connected, with a working socket, no room entered.
  \<open>xhabb_payload\<close> is a user-object payload with user id 1 and name \<open>xhabb\<close>, cut off after
  the name.
\<close>

definition live_client :: Client where
  "live_client = (Client_init 0)\<lparr>sock := Some \<lparr>sendall_raises = False\<rparr>, connected := True\<rparr>"

definition xhabb_payload :: bytes where
  "xhabb_payload = [0, 0, 0, 1, 0, 5, 120, 104, 97, 98, 98]"

text \<open>
  A height-map payload for the 5 by 4 room of the door scenario: all tiles 0 but the tile
  \<open>(1, 1)\<close>, whose value \<open>40 00\<close> has the stacking-blocked bit set.
\<close>

definition height_payload :: bytes where
  "height_payload =
     [0, 0, 0, 0, 0, 0, 0, 0, 0, 0,
      0, 0, 64, 0, 0, 0, 0, 0, 0, 0,
      0, 0, 0, 0, 0, 0, 0, 0, 0, 0,
      0, 0, 0, 0, 0, 0, 0, 0, 0, 0]"

section \<open>The cipher state stays a permutation\<close>

lemma mset_swap_range:
  "a < length s \<Longrightarrow> b < length s \<Longrightarrow> mset (swap s a b) = mset s"
  unfolding swap_def by (simp add: mset_swap)

lemma perm_length: "mset s = mset [0..<256] \<Longrightarrow> length s = 256"
  using mset_eq_length by fastforce

lemma ksa_step_perm:
  assumes "mset (fst sj) = mset [0..<256]" and "i < 256"
  shows "mset (fst (ksa_step key i sj)) = mset [0..<256]"
proof -
  have len: "length (fst sj) = 256" using assms(1) by (rule perm_length)
  show ?thesis
    using assms len by (simp add: ksa_step_def Let_def mset_swap_range)
qed

lemma fold_ksa_perm:
  "mset (fst sj) = mset [0..<256] \<Longrightarrow> \<forall>i \<in> set is. i < 256 \<Longrightarrow>
   mset (fst (fold (ksa_step key) is sj)) = mset [0..<256]"
proof (induction "is" arbitrary: sj)
  case Nil
  then show ?case by simp
next
  case (Cons i "is")
  have "mset (fst (ksa_step key i sj)) = mset [0..<256]"
    using Cons.prems by (intro ksa_step_perm) auto
  then show ?case using Cons by simp
qed

lemma ksa_perm: "mset (fst (ksa key)) = mset [0..<256]"
  unfolding ksa_def by (rule fold_ksa_perm) auto

lemma advance_perm:
  assumes "mset (af_s c) = mset [0..<256]"
  shows "mset (af_s (advance c)) = mset [0..<256]"
proof -
  have len: "length (af_s c) = 256" using assms by (rule perm_length)
  show ?thesis using assms len by (simp add: advance_def Let_def mset_swap_range)
qed

lemma apply_cipher_perm:
  "mset (af_s c) = mset [0..<256] \<Longrightarrow>
   mset (af_s (fst (apply_cipher c data d))) = mset [0..<256]"
  by (induction data arbitrary: c) (simp_all add: Let_def advance_perm)

text \<open>
  C9. For a non-empty key the constructor returns a cipher whose \<open>_s\<close> is a permutation of
  \<open>0..255\<close> (the same multiset as \<open>range(256)\<close>), and \<open>_s\<close> is still such a permutation
  after \<open>_apply_cipher\<close> has processed any data, in either direction; every prefix of the
  data is itself such a data, so this covers the state after every byte.
\<close>

theorem ArcFour_state_is_permutation:
  "key \<noteq> [] \<Longrightarrow>
   \<exists>c. ArcFour_init key = Inr c \<and> mset (af_s c) = mset [0..<256] \<and>
     (\<forall>data is_decrypt.
        mset (af_s (fst (apply_cipher c data is_decrypt))) = mset [0..<256])"
  by (simp add: ArcFour_init_def ksa_perm apply_cipher_perm)

theorem ArcFour_state_is_permutation_witness:
  "[1, 2, 3, 4, 5] \<noteq> ([] :: bytes) \<and>
   (\<exists>c. ArcFour_init [1, 2, 3, 4, 5] = Inr c \<and> mset (af_s c) = mset [0..<256] \<and>
     (\<forall>data is_decrypt.
        mset (af_s (fst (apply_cipher c data is_decrypt))) = mset [0..<256]))"
  using ArcFour_state_is_permutation [of "[1, 2, 3, 4, 5]"] by simp

section \<open>The cipher round trip\<close>

lemma apply_cipher_involution:
  "snd (apply_cipher c (snd (apply_cipher c p b)) b) = p"
  by (induction p arbitrary: c) (simp_all add: Let_def xor.assoc)

lemma ksa_chunk_0:
  "fold (ksa_step [1, 2, 3, 4, 5]) [0..<64]
     ([0..<256], 0) =
     ([1, 3, 8, 12, 21, 27, 35, 45, 44, 65, 76, 89, 92, 109, 31, 144, 7, 182, 204, 228, 249, 255, 24,
     23, 78, 104, 132, 140, 172, 206, 237, 128, 49, 86, 125, 26, 170, 210, 252, 40, 80, 123, 168, 60,
     51, 162, 64, 114, 166, 203, 254, 2, 56, 135, 194, 250, 22, 112, 174, 238, 215, 106, 171, 59, 46,
     9, 66, 67, 68, 69, 70, 71, 72, 73, 74, 75, 10, 77, 52, 79, 39, 81, 82, 83, 84, 85, 33, 87, 88,
     11, 90, 91, 0, 93, 94, 95, 96, 97, 98, 99, 100, 101, 102, 103, 25, 105, 61, 107, 108, 13, 110,
     111, 57, 113, 47, 115, 116, 117, 118, 119, 120, 121, 122, 41, 124, 34, 126, 127, 14, 129, 130,
     131, 6, 133, 134, 53, 136, 137, 138, 139, 5, 141, 142, 143, 15, 145, 146, 147, 148, 149, 150,
     151, 152, 153, 154, 155, 156, 157, 158, 159, 160, 161, 16, 163, 164, 165, 48, 167, 42, 169, 36,
     62, 28, 173, 58, 175, 176, 177, 178, 179, 180, 181, 17, 183, 184, 185, 186, 187, 188, 189, 190,
     191, 192, 193, 54, 195, 196, 197, 198, 199, 200, 201, 202, 32, 18, 205, 29, 207, 208, 209, 37,
     211, 212, 213, 214, 43, 216, 217, 218, 219, 220, 221, 222, 223, 224, 225, 226, 227, 19, 229,
     230, 231, 232, 233, 234, 235, 236, 30, 63, 239, 240, 241, 242, 243, 244, 245, 246, 247, 248, 20,
     55, 251, 38, 253, 50, 4], 238)"
  by code_simp

lemma ksa_chunk_64:
  "fold (ksa_step [1, 2, 3, 4, 5]) [64..<128]
     ([1, 3, 8, 12, 21, 27, 35, 45, 44, 65, 76, 89, 92, 109, 31, 144, 7, 182, 204, 228, 249, 255, 24,
     23, 78, 104, 132, 140, 172, 206, 237, 128, 49, 86, 125, 26, 170, 210, 252, 40, 80, 123, 168, 60,
     51, 162, 64, 114, 166, 203, 254, 2, 56, 135, 194, 250, 22, 112, 174, 238, 215, 106, 171, 59, 46,
     9, 66, 67, 68, 69, 70, 71, 72, 73, 74, 75, 10, 77, 52, 79, 39, 81, 82, 83, 84, 85, 33, 87, 88,
     11, 90, 91, 0, 93, 94, 95, 96, 97, 98, 99, 100, 101, 102, 103, 25, 105, 61, 107, 108, 13, 110,
     111, 57, 113, 47, 115, 116, 117, 118, 119, 120, 121, 122, 41, 124, 34, 126, 127, 14, 129, 130,
     131, 6, 133, 134, 53, 136, 137, 138, 139, 5, 141, 142, 143, 15, 145, 146, 147, 148, 149, 150,
     151, 152, 153, 154, 155, 156, 157, 158, 159, 160, 161, 16, 163, 164, 165, 48, 167, 42, 169, 36,
     62, 28, 173, 58, 175, 176, 177, 178, 179, 180, 181, 17, 183, 184, 185, 186, 187, 188, 189, 190,
     191, 192, 193, 54, 195, 196, 197, 198, 199, 200, 201, 202, 32, 18, 205, 29, 207, 208, 209, 37,
     211, 212, 213, 214, 43, 216, 217, 218, 219, 220, 221, 222, 223, 224, 225, 226, 227, 19, 229,
     230, 231, 232, 233, 234, 235, 236, 30, 63, 239, 240, 241, 242, 243, 244, 245, 246, 247, 248, 20,
     55, 251, 38, 253, 50, 4], 238) =
     ([1, 3, 8, 12, 21, 27, 35, 45, 75, 65, 90, 89, 92, 109, 31, 144, 7, 182, 204, 228, 10, 255, 24,
     83, 39, 104, 132, 140, 172, 206, 237, 128, 72, 46, 99, 26, 170, 210, 252, 105, 80, 0, 168, 9,
     51, 162, 94, 114, 126, 203, 254, 121, 56, 135, 194, 250, 22, 112, 174, 73, 215, 106, 77, 119,
     102, 60, 111, 87, 253, 71, 142, 213, 49, 117, 188, 44, 249, 100, 156, 240, 78, 107, 192, 23, 97,
     198, 233, 181, 159, 175, 76, 115, 61, 32, 124, 70, 79, 57, 186, 125, 84, 43, 86, 88, 189, 40,
     123, 34, 30, 238, 36, 63, 171, 179, 231, 103, 209, 13, 195, 59, 184, 2, 176, 221, 64, 122, 166,
     178, 14, 129, 130, 131, 6, 133, 134, 53, 136, 137, 138, 139, 5, 141, 95, 143, 15, 145, 146, 147,
     148, 149, 150, 151, 152, 153, 154, 155, 52, 157, 158, 91, 160, 161, 16, 163, 164, 165, 48, 167,
     42, 169, 110, 62, 28, 173, 58, 11, 81, 177, 127, 113, 180, 67, 17, 183, 120, 185, 98, 187, 74,
     25, 190, 191, 82, 193, 54, 118, 196, 197, 85, 199, 200, 201, 202, 93, 18, 205, 29, 207, 208,
     116, 37, 211, 212, 69, 214, 101, 216, 217, 218, 219, 220, 41, 222, 223, 224, 225, 226, 227, 19,
     229, 230, 47, 232, 33, 234, 235, 236, 108, 66, 239, 96, 241, 242, 243, 244, 245, 246, 247, 248,
     20, 55, 251, 38, 68, 50, 4], 178)"
  by code_simp

lemma ksa_chunk_128:
  "fold (ksa_step [1, 2, 3, 4, 5]) [128..<192]
     ([1, 3, 8, 12, 21, 27, 35, 45, 75, 65, 90, 89, 92, 109, 31, 144, 7, 182, 204, 228, 10, 255, 24,
     83, 39, 104, 132, 140, 172, 206, 237, 128, 72, 46, 99, 26, 170, 210, 252, 105, 80, 0, 168, 9,
     51, 162, 94, 114, 126, 203, 254, 121, 56, 135, 194, 250, 22, 112, 174, 73, 215, 106, 77, 119,
     102, 60, 111, 87, 253, 71, 142, 213, 49, 117, 188, 44, 249, 100, 156, 240, 78, 107, 192, 23, 97,
     198, 233, 181, 159, 175, 76, 115, 61, 32, 124, 70, 79, 57, 186, 125, 84, 43, 86, 88, 189, 40,
     123, 34, 30, 238, 36, 63, 171, 179, 231, 103, 209, 13, 195, 59, 184, 2, 176, 221, 64, 122, 166,
     178, 14, 129, 130, 131, 6, 133, 134, 53, 136, 137, 138, 139, 5, 141, 95, 143, 15, 145, 146, 147,
     148, 149, 150, 151, 152, 153, 154, 155, 52, 157, 158, 91, 160, 161, 16, 163, 164, 165, 48, 167,
     42, 169, 110, 62, 28, 173, 58, 11, 81, 177, 127, 113, 180, 67, 17, 183, 120, 185, 98, 187, 74,
     25, 190, 191, 82, 193, 54, 118, 196, 197, 85, 199, 200, 201, 202, 93, 18, 205, 29, 207, 208,
     116, 37, 211, 212, 69, 214, 101, 216, 217, 218, 219, 220, 41, 222, 223, 224, 225, 226, 227, 19,
     229, 230, 47, 232, 33, 234, 235, 236, 108, 66, 239, 96, 241, 242, 243, 244, 245, 246, 247, 248,
     20, 55, 251, 38, 68, 50, 4], 178) =
     ([1, 3, 8, 12, 21, 27, 35, 45, 42, 145, 90, 89, 92, 109, 31, 144, 7, 182, 204, 228, 10, 255, 24,
     83, 39, 62, 132, 140, 172, 206, 237, 128, 72, 46, 99, 26, 170, 210, 25, 105, 58, 0, 168, 9, 16,
     162, 94, 136, 120, 203, 254, 147, 11, 135, 194, 250, 28, 112, 174, 177, 215, 106, 52, 119, 102,
     60, 111, 87, 253, 71, 142, 213, 49, 138, 129, 44, 249, 100, 98, 240, 78, 107, 131, 23, 97, 198,
     233, 181, 159, 175, 76, 6, 61, 32, 124, 70, 79, 57, 186, 143, 84, 149, 86, 88, 189, 40, 169, 34,
     154, 238, 141, 134, 171, 179, 231, 103, 53, 158, 160, 15, 184, 2, 176, 221, 164, 122, 166, 178,
     196, 188, 205, 192, 115, 19, 63, 81, 114, 187, 117, 217, 223, 36, 167, 125, 59, 65, 157, 121,
     93, 151, 38, 43, 126, 130, 30, 75, 77, 211, 13, 180, 195, 104, 51, 146, 64, 127, 191, 208, 74,
     123, 139, 161, 22, 33, 80, 56, 165, 73, 209, 183, 69, 48, 248, 234, 152, 113, 156, 218, 155,
     252, 229, 133, 82, 193, 54, 118, 14, 197, 85, 199, 200, 201, 202, 148, 18, 153, 29, 207, 95,
     116, 37, 163, 212, 91, 214, 101, 216, 110, 137, 219, 220, 41, 222, 5, 224, 225, 226, 227, 67,
     190, 230, 47, 232, 173, 185, 235, 236, 108, 66, 239, 96, 241, 242, 243, 244, 245, 246, 247, 17,
     20, 55, 251, 150, 68, 50, 4], 166)"
  by code_simp

lemma ksa_chunk_192:
  "fold (ksa_step [1, 2, 3, 4, 5]) [192..<256]
     ([1, 3, 8, 12, 21, 27, 35, 45, 42, 145, 90, 89, 92, 109, 31, 144, 7, 182, 204, 228, 10, 255, 24,
     83, 39, 62, 132, 140, 172, 206, 237, 128, 72, 46, 99, 26, 170, 210, 25, 105, 58, 0, 168, 9, 16,
     162, 94, 136, 120, 203, 254, 147, 11, 135, 194, 250, 28, 112, 174, 177, 215, 106, 52, 119, 102,
     60, 111, 87, 253, 71, 142, 213, 49, 138, 129, 44, 249, 100, 98, 240, 78, 107, 131, 23, 97, 198,
     233, 181, 159, 175, 76, 6, 61, 32, 124, 70, 79, 57, 186, 143, 84, 149, 86, 88, 189, 40, 169, 34,
     154, 238, 141, 134, 171, 179, 231, 103, 53, 158, 160, 15, 184, 2, 176, 221, 164, 122, 166, 178,
     196, 188, 205, 192, 115, 19, 63, 81, 114, 187, 117, 217, 223, 36, 167, 125, 59, 65, 157, 121,
     93, 151, 38, 43, 126, 130, 30, 75, 77, 211, 13, 180, 195, 104, 51, 146, 64, 127, 191, 208, 74,
     123, 139, 161, 22, 33, 80, 56, 165, 73, 209, 183, 69, 48, 248, 234, 152, 113, 156, 218, 155,
     252, 229, 133, 82, 193, 54, 118, 14, 197, 85, 199, 200, 201, 202, 148, 18, 153, 29, 207, 95,
     116, 37, 163, 212, 91, 214, 101, 216, 110, 137, 219, 220, 41, 222, 5, 224, 225, 226, 227, 67,
     190, 230, 47, 232, 173, 185, 235, 236, 108, 66, 239, 96, 241, 242, 243, 244, 245, 246, 247, 17,
     20, 55, 251, 150, 68, 50, 4], 166) =
     ([1, 3, 8, 201, 21, 27, 35, 67, 242, 145, 207, 89, 92, 109, 31, 144, 7, 182, 55, 241, 224, 255,
     236, 83, 39, 153, 220, 140, 163, 206, 237, 128, 96, 46, 99, 26, 170, 210, 222, 105, 235, 0, 168,
     68, 16, 214, 94, 5, 120, 203, 254, 147, 11, 135, 194, 250, 29, 112, 174, 177, 185, 219, 52, 119,
     102, 60, 111, 87, 253, 41, 142, 213, 49, 138, 54, 44, 249, 100, 98, 240, 78, 116, 91, 23, 97,
     198, 233, 181, 159, 175, 76, 6, 61, 137, 124, 202, 79, 57, 50, 143, 84, 149, 86, 4, 148, 40,
     169, 34, 154, 238, 141, 199, 171, 179, 118, 103, 53, 158, 160, 37, 184, 2, 176, 221, 164, 122,
     173, 18, 196, 188, 14, 192, 115, 108, 63, 81, 114, 187, 117, 217, 223, 36, 167, 125, 59, 65,
     157, 101, 93, 151, 38, 43, 126, 130, 30, 75, 77, 211, 13, 180, 195, 104, 51, 85, 64, 127, 191,
     208, 74, 123, 139, 161, 247, 33, 80, 56, 165, 230, 225, 183, 69, 48, 248, 234, 152, 113, 156,
     218, 155, 252, 229, 239, 227, 17, 82, 231, 205, 129, 146, 134, 28, 12, 190, 66, 178, 232, 200,
     245, 110, 107, 15, 172, 243, 131, 162, 121, 70, 244, 20, 106, 132, 71, 25, 136, 212, 246, 47,
     150, 45, 95, 73, 32, 62, 166, 215, 58, 24, 19, 189, 133, 72, 228, 42, 10, 216, 90, 209, 22, 251,
     226, 204, 197, 193, 9, 186, 88], 103)"
  by code_simp

lemma fold_range_split:
  "fold f [0..<256] x =
     fold f [192..<256] (fold f [128..<192] (fold f [64..<128] (fold f [0..<64] x)))"
proof -
  have a: "[0..<256::nat] = [0..<64] @ [64..<256]"
    using upt_add_eq_append [of 0 64 192] by (simp del: upt_rec_numeral)
  have b: "[64..<256::nat] = [64..<128] @ [128..<256]"
    using upt_add_eq_append [of 64 128 128] by (simp del: upt_rec_numeral)
  have c: "[128..<256::nat] = [128..<192] @ [192..<256]"
    using upt_add_eq_append [of 128 192 64] by (simp del: upt_rec_numeral)
  show ?thesis
    unfolding a b c fold_append o_apply ..
qed

lemma ksa_12345: "ksa [1, 2, 3, 4, 5] = (ks_12345, 103)"
  unfolding ksa_def fold_range_split ksa_chunk_0 ksa_chunk_64 ksa_chunk_128 ksa_chunk_192
    ks_12345_def ..

lemma init_12345:
  "ArcFour_init [1, 2, 3, 4, 5] = Inr \<lparr>af_s = ks_12345, af_i = 0, af_j = 0\<rparr>"
  by (simp add: ArcFour_init_def ksa_12345)

lemma encrypt_hello:
  "snd (encrypt \<lparr>af_s = ks_12345, af_i = 0, af_j = 0\<rparr> [72, 69, 76, 76, 79]) =
     [250, 124, 47, 73, 191]"
  by code_simp

lemma decrypt_hello:
  "snd (decrypt \<lparr>af_s = ks_12345, af_i = 0, af_j = 0\<rparr> [250, 124, 47, 73, 191]) =
     [27, 12, 160, 82, 247]"
  by code_simp

text \<open>
  C1, as stated, fails: with key \<open>01 02 03 04 05\<close> the ciphertext of \<open>HELLO\<close>
  (\<open>48 45 4C 4C 4F\<close>), decrypted by a fresh instance with the same key, is
  \<open>1B 0C A0 52 F7\<close>.
\<close>

theorem mirror_roundtrip_counterexample:
  "mirror_roundtrip [1, 2, 3, 4, 5] [72, 69, 76, 76, 79] = Inr [27, 12, 160, 82, 247] \<and>
   mirror_roundtrip [1, 2, 3, 4, 5] [72, 69, 76, 76, 79] \<noteq> Inr [72, 69, 76, 76, 79]"
  by (simp add: mirror_roundtrip_def init_12345 encrypt_hello decrypt_hello)

text \<open>
  C1, amended. For every non-empty key and every plaintext, the output of one instance's
  encrypt path is turned back into the plaintext by the encrypt path (the same single-lookup
  keystream) of a fresh instance with the same key; likewise the decrypt path inverts the
  decrypt path.
\<close>

theorem same_direction_roundtrip_recovers:
  "key \<noteq> [] \<Longrightarrow> same_direction_roundtrip is_decrypt key plaintext = Inr plaintext"
  by (simp add: same_direction_roundtrip_def ArcFour_init_def apply_cipher_involution)

theorem same_direction_roundtrip_recovers_witness:
  "[1, 2, 3, 4, 5] \<noteq> ([] :: bytes) \<and>
   same_direction_roundtrip False [1, 2, 3, 4, 5] [72, 69, 76, 76, 79] =
     Inr [72, 69, 76, 76, 79]"
  using same_direction_roundtrip_recovers [of "[1, 2, 3, 4, 5]" False "[72, 69, 76, 76, 79]"]
  by simp

section \<open>The codec round trip\<close>

lemma be_uint_be_bytes_4:
  "0 \<le> v \<Longrightarrow> v < 4294967296 \<Longrightarrow> be_uint (be_bytes 4 v) = v"
  by (simp add: be_uint_def eval_nat_numeral uint_word_of_int take_bit_eq_mod)

text \<open>
  C2 at a negative field. A packet with id 1 and the single field \<open>write_integer(-1)\<close> is
  emitted as \<open>00 00 00 06 00 01 FF FF FF FF\<close>; reading the body back with
  \<open>read_integer\<close> gives 4294967295, not -1.
\<close>

theorem roundtrip_integer_minus_one:
  "roundtrip_integer 1 (- 1) = Inr (1, 4294967295)"
  by (simp add: roundtrip_integer_def HabboPacket_init_def write_short_def pack_H_def
      write_integer_def pack_i_def get_bytes_def pack_I_def split_frame_def unpack_H_def
      read_integer_def Buffer_init_def slice_def be_uint_def eval_nat_numeral
      unsigned_minus_1_eq_mask mask_eq_exp_minus_1)

section \<open>The door scenario of the floor map\<close>

lemma read_map_string:
  "length text = 23 \<Longrightarrow>
   fst (read_string (snd (read_integer (snd (read_boolean
     (Buffer_init (b # w1 # w2 # w3 # w4 # 0 # 23 # text))))))) = utf8_decode text"
  by (simp add: Buffer_init_def read_boolean_def read_integer_def read_string_def
      read_short_def slice_def be_uint_def Let_def)

lemma scenario_split: "split_on 13 (strip (utf8_decode scenario_text)) = scenario_rows"
  by (simp add: scenario_text_def scenario_rows_def strip_def py_isspace_def)

lemma scenario_fill:
  "fill_rows (replicate 4 (replicate 5 [])) 0 scenario_rows = (None, scenario_floor_map)"
  by (simp add: scenario_rows_def scenario_floor_map_def eval_nat_numeral)

lemma scenario_scan:
  "scan_rows scenario_floor_map scenario_rows 5 [0..<4] (- 1, - 1, 0) = (- 1, - 1, 0)"
  by (simp add: scenario_rows_def scenario_floor_map_def upt_rec lower_is_x_def door_match_def
      cell_is_x_def py_index_def py_and_def is_x_def)

lemma scenario_dims:
  "length scenario_rows = 4" "length (scenario_rows ! 0) = 5" "scenario_rows \<noteq> []"
  by (simp_all add: scenario_rows_def)

lemma floor_scenario_result:
  "parse_floor_height_map (b # w1 # w2 # w3 # w4 # 0 # 23 # scenario_text) rm =
     (None, rm\<lparr>height := 4, width := 5, floor_map := scenario_floor_map,
        tile_heights := replicate 4 (replicate 5 0),
        stacking_blocked := replicate 4 (replicate 5 False),
        is_room_tile := replicate 4 (replicate 5 False),
        door_x := - 1, door_y := - 1\<rparr>)"
proof -
  have len: "length scenario_text = 23" by (simp add: scenario_text_def)
  show ?thesis
    unfolding parse_floor_height_map_def
    by (simp add: Let_def case_prod_beta read_map_string [OF len] scenario_split
        scenario_dims scenario_fill scenario_scan del: replicate.simps upt_rec_numeral)
qed

text \<open>
  C7, as stated, fails: on the scenario payload the door is not \<open>(1, 1)\<close>. The cell
  \<open>(1, 1)\<close> has \<open>0\<close>, not \<open>x\<close>, to its south and to its east.
\<close>

theorem floor_scenario_door_counterexample:
  "(door_x (snd (parse_floor_height_map scenario_payload RoomMap_init)),
    door_y (snd (parse_floor_height_map scenario_payload RoomMap_init))) \<noteq> (1, 1)"
  by (simp add: scenario_payload_def floor_scenario_result)

text \<open>
  C7, amended. A floor-height-map payload whose map text is
  \<open>xxxxx\rx0000\rx000x\rxxxxx\<close>, with any flag byte and any wall height, processed on any
  room map, raises nothing and sets \<open>width = 5\<close>, \<open>height = 4\<close> and
  \<open>(door_x, door_y) = (-1, -1)\<close>: the scan finds no cell that is not \<open>x\<close> and matches a
  gap pattern.
\<close>

theorem floor_scenario_dimensions_and_door:
  "fst (parse_floor_height_map
          (b # w1 # w2 # w3 # w4 # 0 # 23 # scenario_text) rm) = None \<and>
   width (snd (parse_floor_height_map
          (b # w1 # w2 # w3 # w4 # 0 # 23 # scenario_text) rm)) = 5 \<and>
   height (snd (parse_floor_height_map
          (b # w1 # w2 # w3 # w4 # 0 # 23 # scenario_text) rm)) = 4 \<and>
   door_x (snd (parse_floor_height_map
          (b # w1 # w2 # w3 # w4 # 0 # 23 # scenario_text) rm)) = - 1 \<and>
   door_y (snd (parse_floor_height_map
          (b # w1 # w2 # w3 # w4 # 0 # 23 # scenario_text) rm)) = - 1"
  by (simp add: floor_scenario_result)

section \<open>The send path\<close>



section \<open>The disconnect-reason frame\<close>

lemma live_client_connected: "connected live_client"
  by (simp add: live_client_def)

lemma unpack_i_zero: "unpack_i [0, 0, 0, 0] = Inr 0"
  by (simp add: unpack_i_def be_uint_def)

text \<open>
  C5, as stated, fails: a disconnect-reason frame with code 0 (logged out) raises nothing
  in the listener and leaves the state as it was, connected, so the loop reads on; the
  height-map frame that follows is still handled.
\<close>

theorem disconnect_reason_zero_counterexample:
  "listener_step (4000, [0, 0, 0, 0]) live_client = (None, live_client) \<and>
   connected live_client \<and>
   pending_height_map_payload
     (listen_for_packets [(4000, [0, 0, 0, 0]), (3055, [1, 2])] live_client) = Some [1, 2]"
  by (simp add: listener_step_def handle_disconnect_reason_def unpack_i_zero
      live_client_connected on_height_map_def HEIGHT_MAP_def PING_def FLOOD_CONTROL_def USERS_def
      USER_OBJECT_def FLAT_CREATED_def NAVIGATOR_SEARCH_RESULT_BLOCKS_def FLOOR_HEIGHT_MAP_def
      listener_exit_def disconnect_def Let_def)
    (simp add: live_client_def Client_init_def RoomMap_init_def)

lemma listener_exit_banned:
  "is_banned (listener_exit (Some BanDetectedException) c) \<and>
   \<not> connected (listener_exit (Some BanDetectedException) c) \<and>
   sock (listener_exit (Some BanDetectedException) c) = None \<and>
   last (status_log (listener_exit (Some BanDetectedException) c)) = ''Banned''"
  by (simp add: listener_exit_def disconnect_def Let_def)

lemma connect_except_banned:
  "connected c \<Longrightarrow>
   is_banned (connect_except BanDetectedException c) \<and>
   \<not> connected (connect_except BanDetectedException c) \<and>
   sock (connect_except BanDetectedException c) = None \<and>
   last (status_log (connect_except BanDetectedException c)) = ''Banned''"
  by (simp add: connect_except_def disconnect_def Let_def)

text \<open>
  C5, amended. In every receive loop (the two handshake waits, the login wait and the
  listener) a disconnect-reason frame whose payload is a 4-byte integer equal to 1 or 10
  marks the session banned and raises \<open>BanDetectedException\<close>, which ends the session:
  disconnected, socket closed, status \<open>Banned\<close>. A disconnect-reason frame with any other
  payload raises nothing and leaves the session state as it was, and the loop goes on with
  the next frame.
\<close>

theorem disconnect_reason_frame:
  assumes "connected c"
  shows
    "if unpack_i payload = Inr 1 \<or> unpack_i payload = Inr 10
     then listener_step (4000, payload) c = (Some BanDetectedException, c\<lparr>is_banned := True\<rparr>)
        \<and> listen_for_packets ((4000, payload) # frames) c
            = listener_exit (Some BanDetectedException) (c\<lparr>is_banned := True\<rparr>)
        \<and> is_banned (listen_for_packets ((4000, payload) # frames) c)
        \<and> \<not> connected (listen_for_packets ((4000, payload) # frames) c)
        \<and> last (status_log (listen_for_packets ((4000, payload) # frames) c)) = ''Banned''
        \<and> handshake_wait_step SERVER_INIT_DIFFIE_HANDSHAKE False (4000, payload) c
            = (Raise BanDetectedException, c\<lparr>is_banned := True\<rparr>)
        \<and> handshake_wait_step SERVER_COMPLETE_DIFFIE_HANDSHAKE True (4000, payload) c
            = (Raise BanDetectedException, c\<lparr>is_banned := True\<rparr>)
        \<and> login_wait_step (4000, payload) c
            = (Raise BanDetectedException, c\<lparr>is_banned := True\<rparr>)
        \<and> is_banned (connect_except BanDetectedException (c\<lparr>is_banned := True\<rparr>))
        \<and> \<not> connected (connect_except BanDetectedException (c\<lparr>is_banned := True\<rparr>))
        \<and> last (status_log (connect_except BanDetectedException (c\<lparr>is_banned := True\<rparr>)))
            = ''Banned''
     else listener_step (4000, payload) c = (None, c)
        \<and> listen_for_packets ((4000, payload) # frames) c = listen_for_packets frames c
        \<and> handshake_wait_step SERVER_INIT_DIFFIE_HANDSHAKE False (4000, payload) c
            = (Continue, c)
        \<and> handshake_wait_step SERVER_COMPLETE_DIFFIE_HANDSHAKE True (4000, payload) c
            = (Continue, c)
        \<and> login_wait_step (4000, payload) c = (Continue, c)"
proof -
  have ids: "(4000::int) \<noteq> SERVER_INIT_DIFFIE_HANDSHAKE"
    "(4000::int) \<noteq> SERVER_COMPLETE_DIFFIE_HANDSHAKE" "(4000::int) \<noteq> PING"
    "(4000::int) \<noteq> FLOOD_CONTROL" "(4000::int) \<noteq> AUTHENTICATION_OK"
    by (simp_all add: SERVER_INIT_DIFFIE_HANDSHAKE_def SERVER_COMPLETE_DIFFIE_HANDSHAKE_def
        PING_def FLOOD_CONTROL_def AUTHENTICATION_OK_def)
  show ?thesis
  proof (cases "unpack_i payload = Inr 1 \<or> unpack_i payload = Inr 10")
    case True
    then have h: "handle_disconnect_reason payload c
        = (Some BanDetectedException, c\<lparr>is_banned := True\<rparr>)"
      by (auto simp: handle_disconnect_reason_def)
    have step: "listener_step (4000, payload) c
        = (Some BanDetectedException, c\<lparr>is_banned := True\<rparr>)"
      by (simp add: listener_step_def h)
    have run: "listen_for_packets ((4000, payload) # frames) c
        = listener_exit (Some BanDetectedException) (c\<lparr>is_banned := True\<rparr>)"
      using assms by (simp add: step)
    have conn: "connected (c\<lparr>is_banned := True\<rparr>)"
      using assms by simp
    show ?thesis
      using True
      by (simp add: step run listener_exit_banned connect_except_banned [OF conn]
          handshake_wait_step_def login_wait_step_def h ids del: listen_for_packets.simps)
  next
    case False
    then have h: "handle_disconnect_reason payload c = (None, c)"
      by (auto simp: handle_disconnect_reason_def split: sum.splits)
    have step: "listener_step (4000, payload) c = (None, c)"
      by (simp add: listener_step_def h)
    have run: "listen_for_packets ((4000, payload) # frames) c = listen_for_packets frames c"
      using assms by (simp add: step)
    show ?thesis
      using False
      by (simp add: step run handshake_wait_step_def login_wait_step_def h ids
          del: listen_for_packets.simps)
  qed
qed

lemma unpack_i_ten: "unpack_i [0, 0, 0, 10] = Inr 10"
  by (simp add: unpack_i_def be_uint_def)

theorem disconnect_reason_frame_witness:
  "connected live_client \<and>
   unpack_i [0, 0, 0, 10] = Inr 10 \<and>
   listener_step (4000, [0, 0, 0, 10]) live_client
     = (Some BanDetectedException, live_client\<lparr>is_banned := True\<rparr>) \<and>
   last (status_log (listen_for_packets [(4000, [0, 0, 0, 10])] live_client)) = ''Banned'' \<and>
   login_wait_step (4000, [0, 0, 0, 10]) live_client
     = (Raise BanDetectedException, live_client\<lparr>is_banned := True\<rparr>) \<and>
   unpack_i [0, 0, 0, 0] = Inr 0 \<and>
   listener_step (4000, [0, 0, 0, 0]) live_client = (None, live_client) \<and>
   listen_for_packets [(4000, [0, 0, 0, 0])] live_client = listen_for_packets [] live_client \<and>
   login_wait_step (4000, [0, 0, 0, 0]) live_client = (Continue, live_client)"
  using disconnect_reason_frame [OF live_client_connected, of "[0, 0, 0, 10]" "[]"]
    disconnect_reason_frame [OF live_client_connected, of "[0, 0, 0, 0]" "[]"]
  by (simp add: unpack_i_ten unpack_i_zero live_client_connected listener_exit_banned
      del: listen_for_packets.simps)

section \<open>The user-object frame\<close>

lemma parse_xhabb: "name (parse_user_object xhabb_payload) = ascii ''xhabb''"
  by (simp add: parse_user_object_def xhabb_payload_def Buffer_init_def read_integer_def
      read_string_def read_short_def read_boolean_def slice_def be_uint_def Let_def ascii_def)

text \<open>
  C8 at a name that contains \<open>habb\<close> without beginning with it. The user-object frame with
  the name \<open>xhabb\<close>, received by a session whose personalization flow has not run, starts
  the flow.
\<close>

theorem user_object_xhabb_starts_flow:
  "\<not> nux_running live_client \<and> nux_threads live_client = 0 \<and>
   username (snd (listener_step (USER_OBJECT, xhabb_payload) live_client)) = ascii ''xhabb'' \<and>
   \<not> startswith (lower_ascii (ascii ''xhabb'')) (ascii ''habb'') \<and>
   nux_threads (snd (listener_step (USER_OBJECT, xhabb_payload) live_client)) = 1"
  by (simp add: listener_step_def USER_OBJECT_def PING_def FLOOD_CONTROL_def USERS_def
      on_user_object_def parse_xhabb Let_def)
    (simp add: live_client_def Client_init_def ascii_def lower_ascii_def)

section \<open>The height map before the floor map\<close>

lemma set_cell_ok:
  assumes "grid_ok h w g" "y < h" "x < w"
  shows "\<exists>g'. set_cell g y x v = Inr g' \<and> grid_ok h w g'"
proof -
  have ly: "y < length g" and lx: "x < length (g ! y)"
    using assms by (auto simp: grid_ok_def)
  have "grid_ok h w (g[y := (g ! y)[x := v]])"
    using assms by (auto simp: grid_ok_def set_conv_nth nth_list_update)
  then show ?thesis
    using ly lx by (simp add: set_cell_def)
qed

lemma store_tile_ok:
  assumes "dims_ok rm" "y < height rm" "x < width rm"
  shows "fst (store_tile tv y x rm) = None \<and> dims_ok (snd (store_tile tv y x rm)) \<and>
         height (snd (store_tile tv y x rm)) = height rm \<and>
         width (snd (store_tile tv y x rm)) = width rm"
proof -
  obtain sb where sb: "set_cell (stacking_blocked rm) y x (tv AND 16384 \<noteq> 0) = Inr sb"
      "grid_ok (height rm) (width rm) sb"
    using set_cell_ok [of "height rm" "width rm" "stacking_blocked rm" y x] assms
    by (auto simp: dims_ok_def)
  obtain rt where rt: "set_cell (is_room_tile rm) y x (tv AND 512 = 0) = Inr rt"
      "grid_ok (height rm) (width rm) rt"
    using set_cell_ok [of "height rm" "width rm" "is_room_tile rm" y x] assms
    by (auto simp: dims_ok_def)
  obtain th where th: "set_cell (tile_heights rm) y x (of_int (tv AND 16383) / 256) = Inr th"
      "grid_ok (height rm) (width rm) th"
    using set_cell_ok [of "height rm" "width rm" "tile_heights rm" y x] assms
    by (auto simp: dims_ok_def)
  show ?thesis
    using sb rt th by (simp add: store_tile_def Let_def dims_ok_def)
qed

lemma slice_two: "i + 2 \<le> length raw \<Longrightarrow> length (slice raw i (i + 2)) = 2"
  by (simp add: slice_def)

lemma height_row_ok:
  "dims_ok rm \<Longrightarrow> y < height rm \<Longrightarrow> \<forall>x \<in> set xs. x < width rm \<Longrightarrow>
   fst (height_row raw w y xs rm) = None \<and> dims_ok (snd (height_row raw w y xs rm)) \<and>
   height (snd (height_row raw w y xs rm)) = height rm \<and>
   width (snd (height_row raw w y xs rm)) = width rm"
proof (induction xs arbitrary: rm)
  case Nil
  then show ?case by simp
next
  case (Cons x xs)
  show ?case
  proof (cases "(y * w + x) * 2 + 2 > length raw")
    case True
    then show ?thesis using Cons.prems by (simp add: Let_def)
  next
    case False
    then have len: "length (slice raw ((y * w + x) * 2) ((y * w + x) * 2 + 2)) = 2"
      by (intro slice_two) simp
    obtain tv where tv: "unpack_h (slice raw ((y * w + x) * 2) ((y * w + x) * 2 + 2)) = Inr tv"
      using len by (simp add: unpack_h_def)
    have st: "fst (store_tile tv y x rm) = None \<and> dims_ok (snd (store_tile tv y x rm)) \<and>
         height (snd (store_tile tv y x rm)) = height rm \<and>
         width (snd (store_tile tv y x rm)) = width rm"
      using Cons.prems by (intro store_tile_ok) auto
    obtain rm1 where rm1: "store_tile tv y x rm = (None, rm1)"
      using st by (cases "store_tile tv y x rm") auto
    have ih: "fst (height_row raw w y xs rm1) = None \<and> dims_ok (snd (height_row raw w y xs rm1)) \<and>
         height (snd (height_row raw w y xs rm1)) = height rm1 \<and>
         width (snd (height_row raw w y xs rm1)) = width rm1"
      using Cons.prems st rm1 by (intro Cons.IH) auto
    show ?thesis
      using False tv rm1 ih st by (simp add: Let_def)
  qed
qed

lemma height_rows_ok:
  "dims_ok rm \<Longrightarrow> w = width rm \<Longrightarrow> \<forall>y \<in> set ys. y < height rm \<Longrightarrow>
   fst (height_rows raw w ys rm) = None \<and> dims_ok (snd (height_rows raw w ys rm)) \<and>
   height (snd (height_rows raw w ys rm)) = height rm \<and>
   width (snd (height_rows raw w ys rm)) = width rm"
proof (induction ys arbitrary: rm)
  case Nil
  then show ?case by simp
next
  case (Cons y ys)
  have row: "fst (height_row raw w y [0..<w] rm) = None \<and>
      dims_ok (snd (height_row raw w y [0..<w] rm)) \<and>
      height (snd (height_row raw w y [0..<w] rm)) = height rm \<and>
      width (snd (height_row raw w y [0..<w] rm)) = width rm"
    using Cons.prems by (intro height_row_ok) auto
  obtain rm1 where rm1: "height_row raw w y [0..<w] rm = (None, rm1)"
    using row by (cases "height_row raw w y [0..<w] rm") auto
  have ih: "fst (height_rows raw w ys rm1) = None \<and> dims_ok (snd (height_rows raw w ys rm1)) \<and>
      height (snd (height_rows raw w ys rm1)) = height rm1 \<and>
      width (snd (height_rows raw w ys rm1)) = width rm1"
    using Cons.prems row rm1 by (intro Cons.IH) auto
  show ?case using rm1 ih row by simp
qed

lemma parse_height_map_ok:
  "dims_ok rm \<Longrightarrow> fst (parse_height_map payload rm) = None"
  unfolding parse_height_map_def Let_def
  by (simp add: height_rows_ok)

lemma height_row_empty: "height_row [] w y xs rm = (None, rm)"
  by (cases xs) (simp_all add: Let_def)

lemma height_rows_empty: "height_rows [] w ys rm = (None, rm)"
  by (induction ys) (simp_all add: height_row_empty)

lemma parse_height_map_empty: "parse_height_map [] rm = (None, rm)"
  by (simp add: parse_height_map_def Let_def height_rows_empty)

lemma parse_height_map_no_width: "width rm = 0 \<Longrightarrow> parse_height_map payload rm = (None, rm)"
  by (simp add: parse_height_map_def)

lemma parse_floor_dims:
  "parse_floor_height_map payload rm0 = (None, rm) \<Longrightarrow> dims_ok rm"
  unfolding parse_floor_height_map_def Let_def
  by (auto simp: case_prod_beta dims_ok_def grid_ok_def split: prod.splits option.splits)


lemma room_map_listener_exit: "room_map (listener_exit e c) = room_map c"
  by (simp add: listener_exit_def disconnect_def Let_def)

lemma pending_listener_exit:
  "pending_height_map_payload (listener_exit e c) = pending_height_map_payload c"
  by (simp add: listener_exit_def disconnect_def Let_def)

lemma step_height: "listener_step (HEIGHT_MAP, hp) c = on_height_map hp c"
  by (simp add: listener_step_def HEIGHT_MAP_def PING_def FLOOD_CONTROL_def USERS_def
      USER_OBJECT_def FLAT_CREATED_def NAVIGATOR_SEARCH_RESULT_BLOCKS_def FLOOR_HEIGHT_MAP_def)

lemma step_floor: "listener_step (FLOOR_HEIGHT_MAP, fp) c = on_floor_height_map fp c"
  by (simp add: listener_step_def HEIGHT_MAP_def PING_def FLOOD_CONTROL_def USERS_def
      USER_OBJECT_def FLAT_CREATED_def NAVIGATOR_SEARCH_RESULT_BLOCKS_def FLOOR_HEIGHT_MAP_def)

lemma height_then_floor:
  assumes "connected c" "width (room_map c) = 0" "pending_height_map_payload c = None"
  shows "room_map (listen_for_packets [(HEIGHT_MAP, hp), (FLOOR_HEIGHT_MAP, fp)] c) =
     (case parse_floor_height_map fp (room_map c) of
        (Some e, rm) \<Rightarrow> rm
      | (None, rm) \<Rightarrow> snd (parse_height_map hp rm))"
    and "fst (parse_floor_height_map fp (room_map c)) = None \<Longrightarrow> hp \<noteq> [] \<Longrightarrow>
      pending_height_map_payload
        (listen_for_packets [(HEIGHT_MAP, hp), (FLOOR_HEIGHT_MAP, fp)] c) = None"
proof -
  obtain e rm where pf: "parse_floor_height_map fp (room_map c) = (e, rm)"
    by (cases "parse_floor_height_map fp (room_map c)")
  have ok: "e = None \<Longrightarrow> fst (parse_height_map hp rm) = None"
    using pf by (auto intro: parse_height_map_ok parse_floor_dims)
  show "room_map (listen_for_packets [(HEIGHT_MAP, hp), (FLOOR_HEIGHT_MAP, fp)] c) =
     (case parse_floor_height_map fp (room_map c) of
        (Some e, rm) \<Rightarrow> rm
      | (None, rm) \<Rightarrow> snd (parse_height_map hp rm))"
    using assms pf ok
    by (cases e; cases "parse_height_map hp rm")
      (auto simp: step_height step_floor on_height_map_def on_floor_height_map_def Let_def
        room_map_listener_exit parse_height_map_empty)
  show "pending_height_map_payload
        (listen_for_packets [(HEIGHT_MAP, hp), (FLOOR_HEIGHT_MAP, fp)] c) = None"
    if "fst (parse_floor_height_map fp (room_map c)) = None" "hp \<noteq> []"
    using assms pf ok that
    by (cases e; cases "parse_height_map hp rm")
      (auto simp: step_height step_floor on_height_map_def on_floor_height_map_def Let_def
        pending_listener_exit)
qed

lemma floor_then_height:
  assumes "connected c" "pending_height_map_payload c = None"
  shows "room_map (listen_for_packets [(FLOOR_HEIGHT_MAP, fp), (HEIGHT_MAP, hp)] c) =
     (case parse_floor_height_map fp (room_map c) of
        (Some e, rm) \<Rightarrow> rm
      | (None, rm) \<Rightarrow> snd (parse_height_map hp rm))"
proof -
  obtain e rm where pf: "parse_floor_height_map fp (room_map c) = (e, rm)"
    by (cases "parse_floor_height_map fp (room_map c)")
  have ok: "e = None \<Longrightarrow> fst (parse_height_map hp rm) = None"
    using pf by (auto intro: parse_height_map_ok parse_floor_dims)
  show ?thesis
    using assms pf ok
    by (cases e; cases "parse_height_map hp rm")
      (auto simp: step_height step_floor on_height_map_def on_floor_height_map_def Let_def
        room_map_listener_exit parse_height_map_no_width)
qed

text \<open>
  C6. A connected session that has seen no floor-height-map frame (the room map has no
  width, nothing is pending) handles a height-map frame by buffering its payload, the room
  map untouched. When the floor-height-map frame that follows is processed (its parse
  raises nothing), the room map is the floor-parsed map with the buffered payload applied to
  it once, and a non-empty buffer is emptied, so it is not applied again. In every case the
  final \<open>stacking_blocked\<close> grid is the one that the two frames give in the reversed order.
\<close>

theorem height_map_before_floor_map:
  assumes "connected c" "width (room_map c) = 0" "pending_height_map_payload c = None"
  shows
    "listener_step (HEIGHT_MAP, hp) c = (None, c\<lparr>pending_height_map_payload := Some hp\<rparr>) \<and>
     (fst (parse_floor_height_map fp (room_map c)) = None \<longrightarrow>
        room_map (listen_for_packets [(HEIGHT_MAP, hp), (FLOOR_HEIGHT_MAP, fp)] c)
          = snd (parse_height_map hp (snd (parse_floor_height_map fp (room_map c)))) \<and>
        (hp \<noteq> [] \<longrightarrow>
           pending_height_map_payload
             (listen_for_packets [(HEIGHT_MAP, hp), (FLOOR_HEIGHT_MAP, fp)] c) = None)) \<and>
     stacking_blocked (room_map (listen_for_packets [(HEIGHT_MAP, hp), (FLOOR_HEIGHT_MAP, fp)] c))
       = stacking_blocked
           (room_map (listen_for_packets [(FLOOR_HEIGHT_MAP, fp), (HEIGHT_MAP, hp)] c))"
proof -
  have buffered:
    "listener_step (HEIGHT_MAP, hp) c = (None, c\<lparr>pending_height_map_payload := Some hp\<rparr>)"
    using assms by (simp add: step_height on_height_map_def)
  have applied: "room_map (listen_for_packets [(HEIGHT_MAP, hp), (FLOOR_HEIGHT_MAP, fp)] c)
      = snd (parse_height_map hp (snd (parse_floor_height_map fp (room_map c))))"
    if "fst (parse_floor_height_map fp (room_map c)) = None"
    using that height_then_floor(1) [OF assms, of hp fp]
    by (cases "parse_floor_height_map fp (room_map c)") simp
  have same: "room_map (listen_for_packets [(HEIGHT_MAP, hp), (FLOOR_HEIGHT_MAP, fp)] c)
      = room_map (listen_for_packets [(FLOOR_HEIGHT_MAP, fp), (HEIGHT_MAP, hp)] c)"
    using height_then_floor(1) [OF assms, of hp fp] floor_then_height [OF assms(1,3), of fp hp]
    by simp
  show ?thesis
    using buffered applied height_then_floor(2) [OF assms, of fp hp] same
    by (simp del: listen_for_packets.simps)
qed


lemma live_client_fresh:
  "room_map live_client = RoomMap_init" "pending_height_map_payload live_client = None"
  "width (room_map live_client) = 0"
  by (simp_all add: live_client_def Client_init_def RoomMap_init_def)

lemma scenario_floor_ok:
  "fst (parse_floor_height_map scenario_payload (room_map live_client)) = None"
  by (simp add: scenario_payload_def floor_scenario_result)

lemma scenario_blocked:
  "stacking_blocked (snd (parse_height_map height_payload
     (snd (parse_floor_height_map scenario_payload (room_map live_client))))) =
     [[False, False, False, False, False], [False, True, False, False, False],
      [False, False, False, False, False], [False, False, False, False, False]]"
  by (simp add: scenario_payload_def floor_scenario_result live_client_fresh(1)
      parse_height_map_def height_payload_def Let_def upt_rec unpack_h_def slice_def be_uint_def
      store_tile_def set_cell_def RoomMap_init_def)
    (simp add: eval_nat_numeral)

theorem height_map_before_floor_map_witness:
  "connected live_client \<and> width (room_map live_client) = 0 \<and>
   pending_height_map_payload live_client = None \<and>
   fst (parse_floor_height_map scenario_payload (room_map live_client)) = None \<and>
   height_payload \<noteq> [] \<and>
   listener_step (HEIGHT_MAP, height_payload) live_client
     = (None, live_client\<lparr>pending_height_map_payload := Some height_payload\<rparr>) \<and>
   pending_height_map_payload
     (listen_for_packets [(HEIGHT_MAP, height_payload), (FLOOR_HEIGHT_MAP, scenario_payload)]
        live_client) = None \<and>
   stacking_blocked (room_map
     (listen_for_packets [(HEIGHT_MAP, height_payload), (FLOOR_HEIGHT_MAP, scenario_payload)]
        live_client)) =
     [[False, False, False, False, False], [False, True, False, False, False],
      [False, False, False, False, False], [False, False, False, False, False]] \<and>
   stacking_blocked (room_map
     (listen_for_packets [(FLOOR_HEIGHT_MAP, scenario_payload), (HEIGHT_MAP, height_payload)]
        live_client)) =
     [[False, False, False, False, False], [False, True, False, False, False],
      [False, False, False, False, False], [False, False, False, False, False]]"
proof -
  note t = height_map_before_floor_map
      [OF live_client_connected live_client_fresh(3) live_client_fresh(2),
        of height_payload scenario_payload]
  have ne: "height_payload \<noteq> []" by (simp add: height_payload_def)
  have buffered: "listener_step (HEIGHT_MAP, height_payload) live_client
      = (None, live_client\<lparr>pending_height_map_payload := Some height_payload\<rparr>)"
    using t by blast
  have applied: "room_map (listen_for_packets
        [(HEIGHT_MAP, height_payload), (FLOOR_HEIGHT_MAP, scenario_payload)] live_client)
      = snd (parse_height_map height_payload
          (snd (parse_floor_height_map scenario_payload (room_map live_client))))"
    using t scenario_floor_ok by blast
  have cleared: "pending_height_map_payload (listen_for_packets
        [(HEIGHT_MAP, height_payload), (FLOOR_HEIGHT_MAP, scenario_payload)] live_client) = None"
    using t scenario_floor_ok ne by blast
  have same: "stacking_blocked (room_map (listen_for_packets
        [(FLOOR_HEIGHT_MAP, scenario_payload), (HEIGHT_MAP, height_payload)] live_client))
      = stacking_blocked (room_map (listen_for_packets
        [(HEIGHT_MAP, height_payload), (FLOOR_HEIGHT_MAP, scenario_payload)] live_client))"
    using t by simp
  show ?thesis
    unfolding same applied scenario_blocked
    using buffered cleared scenario_floor_ok ne live_client_connected live_client_fresh(2,3)
    by (simp del: listen_for_packets.simps)
qed

end
